theory Spec2Isabelle
  imports Main "HOL-Library.Char_ord" "HOL-Library.List_Lexorder"
begin

chapter \<open>The program\<close>

section \<open>Go errors as values\<close>

text \<open>
  A Go \<^verbatim>\<open>error\<close> is a value of \<open>goerr\<close>; a nil error is \<open>None\<close> of
  \<open>goerr option\<close>, and a function returning \<^verbatim>\<open>(T, error)\<close> returns \<open>goerr + T\<close>.
  \<open>ErrNotExist\<close> is \<^verbatim>\<open>os.ErrNotExist\<close> (the same value as \<^verbatim>\<open>fs.ErrNotExist\<close>),
  \<open>ErrIsDir\<close> and \<open>ErrNotDir\<close> are the two other failures of reading a path in the
  file tree below, \<open>ErrText\<close> is an error made by \<^verbatim>\<open>errors.New\<close> or by
  \<^verbatim>\<open>fmt.Errorf\<close> without \<^verbatim>\<open>%w\<close>, \<open>Wrapped msg e\<close> is \<^verbatim>\<open>fmt.Errorf(msg + "%w", e)\<close>,
  \<open>Joined\<close> is the value built by \<^verbatim>\<open>errors.Join\<close>, and \<open>FieldRequired\<close> is the
  violation reported for a required field that is empty, at the position of the object
  that holds it. The texts of wrapped errors are shortened where the source formats values
  into them.

  Modelled from the spec: \<^verbatim>\<open>model.ConfigPos\<close> is declared outside the files at hand; by
  the spec a position is a (file, line, column) triple attached to every field of a
  specification and shown in every error that comes from specification data.
\<close>

record ConfigPos =
  SourceFile :: string
  Line :: nat
  Column :: nat

datatype goerr =
    ErrNotExist
  | ErrIsDir
  | ErrNotDir
  | ErrText string
  | Wrapped string goerr
  | Joined "goerr list"
  | FieldRequired ConfigPos string

text \<open>\<^verbatim>\<open>errors.Is(err, os.ErrNotExist)\<close>: the error itself, or any error it wraps.\<close>

fun errors_Is_NotExist :: "goerr \<Rightarrow> bool" where
  "errors_Is_NotExist ErrNotExist = True"
| "errors_Is_NotExist (Wrapped msg e) = errors_Is_NotExist e"
| "errors_Is_NotExist (Joined es) = list_ex errors_Is_NotExist es"
| "errors_Is_NotExist e = False"

text \<open>
  \<^verbatim>\<open>errors.Join\<close> of the Go standard library: nil arguments are dropped, the result is
  nil when nothing is left, and otherwise one error holding the others in argument order.
\<close>

definition errors_Join :: "goerr option list \<Rightarrow> goerr option" where
  "errors_Join errs =
     (let es = List.map_filter (\<lambda>e. e) errs in if es = [] then None else Some (Joined es))"

text \<open>
  The errors a joined error reports, in the order in which its \<^verbatim>\<open>Error()\<close> text lists
  them: \<^verbatim>\<open>joinError.Error\<close> concatenates the texts of the errors it holds.
\<close>

fun reported :: "goerr \<Rightarrow> goerr list" where
  "reported (Joined es) = concat (map reported es)"
| "reported e = [e]"

definition reported_opt :: "goerr option \<Rightarrow> goerr list" where
  "reported_opt r = (case r of None \<Rightarrow> [] | Some e \<Rightarrow> reported e)"

section \<open>Package templatesource: the local downloader\<close>

subsection \<open>DownloadMetadata (download.go)\<close>

record DownloaderVars =
  GitTag :: string
  GitSHA :: string
  GitShortSHA :: string

record DownloadMetadata =
  IsCanonical :: bool
  CanonicalSource :: string
  LocationType :: string
  HasVersion :: bool
  Version :: string
  Vars :: DownloaderVars

text \<open>
  Modelled from the spec: the constant \<^verbatim>\<open>LocTypeLocalGit\<close> is used by
  \<^verbatim>\<open>canonicalize\<close> and declared outside the files at hand; the spec gives the location
  types as \<^verbatim>\<open>local_git\<close> and \<^verbatim>\<open>remote_git\<close>.
\<close>

definition LocTypeLocalGit :: string where
  "LocTypeLocalGit = ''local_git''"

subsection \<open>What the downloader calls\<close>

text \<open>
  The local downloader works through the operating system, the Go library and git. They
  are the fields of a \<open>host\<close>; \<open>'w\<close> is the state of the world they read and change
  (the file system with its git workspaces). \<^verbatim>\<open>common.CopyRecursive\<close> changes the
  world, everything else reads it. \<^verbatim>\<open>git.Workspace\<close> returns the workspace root and
  whether the directory is in a workspace at all; \<^verbatim>\<open>gitCanonicalVersion\<close> returns the
  version and a flag that \<^verbatim>\<open>canonicalize\<close> drops.
\<close>

record FileInfo =
  IsDir :: bool

record 'w host =
  filepath_IsAbs :: "string \<Rightarrow> bool"
  filepath_Join :: "string \<Rightarrow> string \<Rightarrow> string"
  filepath_Rel :: "string \<Rightarrow> string \<Rightarrow> goerr + string"
  filepath_ToSlash :: "string \<Rightarrow> string"
  os_Stat :: "string \<Rightarrow> 'w \<Rightarrow> goerr + FileInfo"
  common_IsStatNotExistErr :: "goerr \<Rightarrow> bool"
  common_CopyRecursive :: "string \<Rightarrow> string \<Rightarrow> 'w \<Rightarrow> goerr option \<times> 'w"
  gitTemplateVars :: "string \<Rightarrow> 'w \<Rightarrow> goerr + DownloaderVars"
  git_Workspace :: "string \<Rightarrow> 'w \<Rightarrow> goerr + (string \<times> bool)"
  gitCanonicalVersion :: "string \<Rightarrow> bool \<Rightarrow> 'w \<Rightarrow> goerr + (string \<times> bool)"

subsection \<open>localSourceParser.sourceParse and LocalDownloader\<close>

record ParseSourceParams =
  CWD :: string
  Source :: string

record LocalDownloader =
  SrcPath :: string
  allowDirty :: bool

text \<open>
  The result is the Go triple \<^verbatim>\<open>(Downloader, bool, error)\<close>. The struct literal of the
  source sets \<^verbatim>\<open>SrcPath\<close> only, so \<^verbatim>\<open>allowDirty\<close> has its zero value.
\<close>

definition sourceParse ::
  "'w host \<Rightarrow> ParseSourceParams \<Rightarrow> 'w \<Rightarrow> LocalDownloader option \<times> bool \<times> goerr option" where
  "sourceParse h params w =
     (let absSource = (if \<not> filepath_IsAbs h (Source params)
                       then filepath_Join h (CWD params) (Source params)
                       else Source params)
      in case os_Stat h absSource w of
           Inl err \<Rightarrow>
             if common_IsStatNotExistErr h err then (None, False, None)
             else (None, False, Some (Wrapped ''Stat(): '' err))
         | Inr fi \<Rightarrow>
             if \<not> IsDir fi then (None, False, None)
             else (Some \<lparr>SrcPath = absSource, allowDirty = False\<rparr>, True, None))"

text \<open>\<^verbatim>\<open>canonicalize\<close> returns \<^verbatim>\<open>(canonicalSource, version, locType, error)\<close>.\<close>

definition canonicalize ::
  "'w host \<Rightarrow> string \<Rightarrow> string \<Rightarrow> string \<Rightarrow> bool \<Rightarrow> 'w \<Rightarrow> goerr + (string \<times> string \<times> string)" where
  "canonicalize h cwd src dest dirty w =
     (let absDest = (if \<not> filepath_IsAbs h dest then filepath_Join h cwd dest else dest)
      in case git_Workspace h src w of
           Inl err \<Rightarrow> Inl err
         | Inr (sourceGitWorkspace, templateIsGit) \<Rightarrow>
            (case git_Workspace h absDest w of
               Inl err \<Rightarrow> Inl err
             | Inr (destGitWorkspace, destIsGit) \<Rightarrow>
                 if \<not> templateIsGit \<or> \<not> destIsGit \<or> sourceGitWorkspace \<noteq> destGitWorkspace
                 then Inr ([], [], [])
                 else (case filepath_Rel h absDest src of
                         Inl err \<Rightarrow> Inl (Wrapped ''filepath.Rel: '' err)
                       | Inr out \<Rightarrow>
                          (case gitCanonicalVersion h sourceGitWorkspace dirty w of
                             Inl err \<Rightarrow> Inl err
                           | Inr (version, ok) \<Rightarrow>
                               Inr (filepath_ToSlash h out, version, LocTypeLocalGit)))))"

text \<open>
  \<^verbatim>\<open>LocalDownloader.Download\<close> returns \<^verbatim>\<open>(*DownloadMetadata, error)\<close> and leaves the
  world as the copy made it.
\<close>

definition Download ::
  "'w host \<Rightarrow> LocalDownloader \<Rightarrow> string \<Rightarrow> string \<Rightarrow> 'w \<Rightarrow> (goerr + DownloadMetadata) \<times> 'w" where
  "Download h l cwd destDir w =
     (case common_CopyRecursive h (SrcPath l) destDir w of
        (Some err, w1) \<Rightarrow> (Inl err, w1)
      | (None, w1) \<Rightarrow>
         (case gitTemplateVars h (SrcPath l) w1 of
            Inl err \<Rightarrow> (Inl err, w1)
          | Inr gitVars \<Rightarrow>
             (case canonicalize h cwd (SrcPath l) destDir (allowDirty l) w1 of
                Inl err \<Rightarrow> (Inl err, w1)
              | Inr (canonicalSource, version, locType) \<Rightarrow>
                  (Inr \<lparr>IsCanonical = (canonicalSource \<noteq> []),
                        CanonicalSource = canonicalSource,
                        LocationType = locType,
                        HasVersion = (version \<noteq> []),
                        Version = version,
                        Vars = gitVars\<rparr>, w1))))"

section \<open>Package goldentest (model): the test configuration\<close>

text \<open>
  \<^verbatim>\<open>model.String\<close> is a string with the position where it was read.
\<close>

record model_String =
  Pos :: ConfigPos
  Val :: string

record VarValue =
  VarValue_Pos :: ConfigPos
  Name :: model_String
  Value :: model_String

record Test =
  Test_Pos :: ConfigPos
  Inputs :: "VarValue list"

text \<open>
  Modelled from the spec: \<^verbatim>\<open>model.NotZeroModel\<close> is called by \<^verbatim>\<open>VarValue.Validate\<close>
  and defined outside the files at hand. By the spec every required field is non-empty, and
  an error that comes from specification data carries a position: the check yields the
  violation of the named field at the given position when the value is the empty string,
  and nil otherwise.
\<close>

definition NotZeroModel :: "ConfigPos \<Rightarrow> model_String \<Rightarrow> string \<Rightarrow> goerr option" where
  "NotZeroModel pos x fieldName = (if Val x = [] then Some (FieldRequired pos fieldName) else None)"

text \<open>
  Modelled from the spec: \<^verbatim>\<open>model.ValidateEach\<close> is called by \<^verbatim>\<open>Test.Validate\<close> and
  defined outside the files at hand. By the spec validation errors are collected across all
  fields before being reported: the errors of all elements are joined, in order.
\<close>

definition ValidateEach :: "('a \<Rightarrow> goerr option) \<Rightarrow> 'a list \<Rightarrow> goerr option" where
  "ValidateEach validate s = errors_Join (map validate s)"

definition VarValue_Validate :: "VarValue \<Rightarrow> goerr option" where
  "VarValue_Validate i =
     errors_Join [NotZeroModel (VarValue_Pos i) (Name i) ''name'',
                  NotZeroModel (VarValue_Pos i) (Value i) ''value'']"

definition Test_Validate :: "Test \<Rightarrow> goerr option" where
  "Test_Validate t = errors_Join [ValidateEach VarValue_Validate (Inputs t)]"

text \<open>Two positions of a test configuration, for the examples.\<close>

definition pos1 :: ConfigPos where
  "pos1 = \<lparr>SourceFile = ''test.yaml'', Line = 4, Column = 5\<rparr>"

definition pos2 :: ConfigPos where
  "pos2 = \<lparr>SourceFile = ''test.yaml'', Line = 6, Column = 5\<rparr>"

section \<open>Package goldentest (commands): verify\<close>

subsection \<open>The file system\<close>

text \<open>
  The verifier reads the real file system through \<^verbatim>\<open>common.RealFS\<close> and package
  \<^verbatim>\<open>os\<close>. The file system is a tree: a regular file with its contents, or a directory
  with its entries in the order in which \<^verbatim>\<open>ReadDir\<close> lists them. A path is the list of
  its components from the root of the tree, which is what \<^verbatim>\<open>filepath.Join\<close> and
  \<^verbatim>\<open>filepath.Rel\<close> compute on clean paths; \<open>path_string\<close> is the path as Go holds it,
  components separated by slashes and \<^verbatim>\<open>.\<close> for the empty path.
\<close>

type_synonym path = "string list"

datatype node = File string | Dir "(string \<times> node) list"

fun node_IsDir :: "node \<Rightarrow> bool" where
  "node_IsDir (Dir es) = True"
| "node_IsDir (File c) = False"

fun slash_join :: "path \<Rightarrow> string" where
  "slash_join [] = []"
| "slash_join [c] = c"
| "slash_join (c # cs) = c @ ''/'' @ slash_join cs"

definition path_string :: "path \<Rightarrow> string" where
  "path_string p = (if p = [] then ''.'' else slash_join p)"

text \<open>
  Resolving a path: a missing entry is \<^verbatim>\<open>ENOENT\<close>, which is \<^verbatim>\<open>os.ErrNotExist\<close>; a
  regular file in the place of a directory is \<^verbatim>\<open>ENOTDIR\<close>, which is not.
\<close>

fun lookup :: "node \<Rightarrow> path \<Rightarrow> goerr + node" where
  "lookup n [] = Inr n"
| "lookup (File c) (x # xs) = Inl ErrNotDir"
| "lookup (Dir es) (x # xs) =
     (case map_of es x of None \<Rightarrow> Inl ErrNotExist | Some n \<Rightarrow> lookup n xs)"

text \<open>\<^verbatim>\<open>os.ReadFile\<close>: the error is a \<^verbatim>\<open>*PathError\<close> around the cause.\<close>

definition os_ReadFile :: "node \<Rightarrow> path \<Rightarrow> goerr + string" where
  "os_ReadFile root p =
     (case lookup root p of
        Inl e \<Rightarrow> Inl (Wrapped ''open: '' e)
      | Inr (File c) \<Rightarrow> Inr c
      | Inr (Dir es) \<Rightarrow> Inl (Wrapped ''read: '' ErrIsDir))"

text \<open>\<^verbatim>\<open>filepath.Join\<close> of clean paths.\<close>

definition Join :: "path \<Rightarrow> path \<Rightarrow> path" where
  "Join a b = a @ b"

text \<open>
  \<^verbatim>\<open>filepath.Rel\<close> of clean paths: drop the common leading components, climb out of
  what is left of the base, descend into what is left of the target. It fails when what is
  left of the base starts with \<^verbatim>\<open>..\<close>.
\<close>

fun strip_common :: "path \<Rightarrow> path \<Rightarrow> path \<times> path" where
  "strip_common (b # bs) (t # ts) = (if b = t then strip_common bs ts else (b # bs, t # ts))"
| "strip_common bs ts = (bs, ts)"

definition Rel :: "path \<Rightarrow> path \<Rightarrow> goerr + path" where
  "Rel basepath targpath =
     (case strip_common basepath targpath of
        (bs, ts) \<Rightarrow>
          if take 1 bs = [''..''] then Inl (ErrText ''Rel: can't make target relative to base'')
          else Inr (replicate (length bs) ''..'' @ ts))"

text \<open>
  \<^verbatim>\<open>fs.WalkDir\<close> of the Go library. The function it calls for every entry gets the path
  and either the entry or the error of reaching the root, and answers nil (\<open>Continue\<close>),
  \<^verbatim>\<open>fs.SkipDir\<close> or another error (\<open>Abort\<close>); \<open>'s\<close> is the state that the function
  closes over.
\<close>

datatype walk_ctl = Continue | SkipDir | Abort goerr

fun walkDir :: "(path \<Rightarrow> goerr + node \<Rightarrow> 's \<Rightarrow> walk_ctl \<times> 's) \<Rightarrow> path \<Rightarrow> node \<Rightarrow> 's \<Rightarrow> walk_ctl \<times> 's"
  and walkEntries :: "(path \<Rightarrow> goerr + node \<Rightarrow> 's \<Rightarrow> walk_ctl \<times> 's) \<Rightarrow> path \<Rightarrow> (string \<times> node) list \<Rightarrow> 's \<Rightarrow> walk_ctl \<times> 's"
  where
  "walkDir fn name (File c) s = fn name (Inr (File c)) s"
| "walkDir fn name (Dir es) s =
     (case fn name (Inr (Dir es)) s of
        (Continue, s1) \<Rightarrow> walkEntries fn name es s1
      | (SkipDir, s1) \<Rightarrow> (Continue, s1)
      | (Abort e, s1) \<Rightarrow> (Abort e, s1))"
| "walkEntries fn name [] s = (Continue, s)"
| "walkEntries fn name ((n1, d1) # rest) s =
     (case walkDir fn (name @ [n1]) d1 s of
        (Continue, s1) \<Rightarrow> walkEntries fn name rest s1
      | (SkipDir, s1) \<Rightarrow> (Continue, s1)
      | (Abort e, s1) \<Rightarrow> (Abort e, s1))"

definition WalkDir :: "node \<Rightarrow> path \<Rightarrow> (path \<Rightarrow> goerr + node \<Rightarrow> 's \<Rightarrow> walk_ctl \<times> 's) \<Rightarrow> 's \<Rightarrow> goerr option \<times> 's" where
  "WalkDir fsys root fn s =
     (case (case lookup fsys root of
              Inl err \<Rightarrow> fn root (Inl (Wrapped ''stat: '' err)) s
            | Inr info \<Rightarrow> walkDir fn root info s) of
        (Continue, s1) \<Rightarrow> (None, s1)
      | (SkipDir, s1) \<Rightarrow> (None, s1)
      | (Abort e, s1) \<Rightarrow> (Some e, s1))"

subsection \<open>Constants and helpers declared outside verify.go\<close>

text \<open>
  Modelled from the spec: \<^verbatim>\<open>common.ABCInternalDir\<close>, \<^verbatim>\<open>common.ABCInternalStdout\<close> and
  \<^verbatim>\<open>common.IsReservedInDest\<close> are used by verify.go and declared outside the files at
  hand. By the spec the directory \<^verbatim>\<open>.abc/\<close> at the top of the destination is reserved
  for the engine (manifests, recorded stdout), and a name is reserved when it is anything
  under that top-level directory; the recorded test data keep the printed output in
  \<^verbatim>\<open>.abc/stdout\<close>.
\<close>

definition ABCInternalDir :: string where
  "ABCInternalDir = ''.abc''"

definition ABCInternalStdout :: string where
  "ABCInternalStdout = ''stdout''"

definition IsReservedInDest :: "path \<Rightarrow> bool" where
  "IsReservedInDest relPath = (case relPath of [] \<Rightarrow> False | c # cs \<Rightarrow> c = ABCInternalDir)"

text \<open>
  The directory names of a golden test (\<^verbatim>\<open>goldenTestDir\<close> is \<^verbatim>\<open>testdata/golden\<close>) and
  the suffix that recorded git files carry; \<^verbatim>\<open>testDataDir\<close> and \<^verbatim>\<open>abcRenameSuffix\<close>
  are declared outside the files at hand, and the recorded tests show their values.
\<close>

definition goldenTestDir :: path where
  "goldenTestDir = [''testdata'', ''golden'']"

definition testDataDir :: string where
  "testDataDir = ''data''"

definition abcRenameSuffix :: string where
  "abcRenameSuffix = ''.abc_renamed''"

text \<open>\<^verbatim>\<open>strings.TrimSuffix\<close>.\<close>

definition TrimSuffix :: "string \<Rightarrow> string \<Rightarrow> string" where
  "TrimSuffix s suffix =
     (if length suffix \<le> length s \<and> drop (length s - length suffix) s = suffix
      then take (length s - length suffix) s else s)"

subsection \<open>The diff library\<close>

text \<open>
  \<^verbatim>\<open>diffmatchpatch\<close> is a library outside the repository: \<^verbatim>\<open>DiffMain\<close> and
  \<^verbatim>\<open>DiffPrettyText\<close> are parameters. \<^verbatim>\<open>hasDiff\<close> is the function of verify.go.
\<close>

datatype Operation = DiffDelete | DiffInsert | DiffEqual

record Diff =
  Diff_Type :: Operation
  Diff_Text :: string

record DiffMatchPatch =
  DiffMain :: "string \<Rightarrow> string \<Rightarrow> Diff list"
  DiffPrettyText :: "Diff list \<Rightarrow> string"

fun hasDiff :: "Diff list \<Rightarrow> bool" where
  "hasDiff [] = False"
| "hasDiff (diff # diffs) = (if Diff_Type diff \<noteq> DiffEqual then True else hasDiff diffs)"

subsection \<open>addTestFiles and getStdoutDiff\<close>

text \<open>
  The Go map \<^verbatim>\<open>fileSet\<close> is a set of relative paths: a list without repetitions, to
  which a path is added unless it is there. The walk function is the closure passed to
  \<^verbatim>\<open>fs.WalkDir\<close>; \<^verbatim>\<open>addTestFiles\<close> returns its error and the map as the walk left it.
\<close>

definition addTestFiles_visit :: "path \<Rightarrow> path \<Rightarrow> goerr + node \<Rightarrow> path list \<Rightarrow> walk_ctl \<times> path list" where
  "addTestFiles_visit dataDir p de fileSet =
     (case de of
        Inl err \<Rightarrow> (Abort (Wrapped ''fs.WalkDir(path): '' err), fileSet)
      | Inr d \<Rightarrow>
         (case Rel dataDir p of
            Inl err \<Rightarrow> (Abort (Wrapped ''filepath.Rel(testDataDir,path): '' err), fileSet)
          | Inr relToSrc \<Rightarrow>
              if IsReservedInDest relToSrc
              then (if node_IsDir d then (SkipDir, fileSet) else (Continue, fileSet))
              else if node_IsDir d then (Continue, fileSet)
              else (Continue, List.insert relToSrc fileSet)))"

definition addTestFiles :: "node \<Rightarrow> path list \<Rightarrow> path \<Rightarrow> goerr option \<times> path list" where
  "addTestFiles fsys fileSet dataDir =
     (case WalkDir fsys dataDir (addTestFiles_visit dataDir) fileSet of
        (Some err, fileSet') \<Rightarrow> (Some (Wrapped ''fs.WalkDir: '' err), fileSet')
      | (None, fileSet') \<Rightarrow> (None, fileSet'))"

definition getStdoutDiff :: "node \<Rightarrow> path \<Rightarrow> path \<Rightarrow> DiffMatchPatch \<Rightarrow> goerr + Diff list" where
  "getStdoutDiff fsys goldenStdoutPath tempStdoutPath dmp =
     (case (case os_ReadFile fsys goldenStdoutPath of
              Inl err \<Rightarrow>
                if \<not> errors_Is_NotExist err
                then Inl (Wrapped (''failed to read ('' @ path_string tempStdoutPath @ ''): '') err)
                else Inr []
            | Inr content \<Rightarrow> Inr content) of
        Inl err \<Rightarrow> Inl err
      | Inr goldenStdout \<Rightarrow>
         (case (case os_ReadFile fsys tempStdoutPath of
                  Inl err \<Rightarrow>
                    if \<not> errors_Is_NotExist err
                    then Inl (Wrapped (''failed to read ('' @ path_string tempStdoutPath @ ''): '') err)
                    else Inr []
                | Inr content \<Rightarrow> Inr content) of
            Inl err \<Rightarrow> Inl err
          | Inr tempStdout \<Rightarrow> Inr (DiffMain dmp tempStdout goldenStdout)))"

subsection \<open>Package fmt: a format without operands\<close>

text \<open>
  \<^verbatim>\<open>Run\<close> makes three of its failures by \<^verbatim>\<open>fmt.Errorf(failureText)\<close>: the finished
  message is the format of the call, and the call has no operands. So the message of the
  error is what package \<^verbatim>\<open>fmt\<close> prints for that format, and a percent sign in a path or
  in a test name is read as the start of a verb. The verifier takes the printing of a
  format without operands as a parameter \<open>sprintf\<close>.

  The functions below follow \<^verbatim>\<open>doPrintf\<close> of the Go library for an empty operand
  list: the text up to a percent sign is copied; after it come flags, an operand index in
  brackets, a width, a precision and the verb; \<^verbatim>\<open>%%\<close> prints a percent sign, any other
  verb prints a note that its operand is missing (or that the index is bad), a star for
  the width or the precision prints a note of its own, and a format that ends before the
  verb prints \<^verbatim>\<open>%!(NOVERB)\<close>. A number is read by \<^verbatim>\<open>parsenum\<close>, which gives up at the
  end of the format when the number grows beyond a million, and the verb is one rune,
  decoded as by \<^verbatim>\<open>utf8.DecodeRuneInString\<close>. Every function returns how many bytes it
  has read rather than the index it has reached.
\<close>

definition isFlag :: "char \<Rightarrow> bool" where
  "isFlag c = (c \<in> set ''#0+- '')"

definition isDigit :: "char \<Rightarrow> bool" where
  "isDigit c = (CHR ''0'' \<le> c \<and> c \<le> CHR ''9'')"

definition tooLarge :: "nat \<Rightarrow> bool" where
  "tooLarge x = (1000000 < x)"

fun parsenum_loop :: "nat \<Rightarrow> bool \<Rightarrow> nat \<Rightarrow> string \<Rightarrow> (bool \<times> nat) option" where
  "parsenum_loop num isnum newi [] = Some (isnum, newi)"
| "parsenum_loop num isnum newi (c # cs) =
     (if isDigit c
      then (if tooLarge num then None
            else parsenum_loop (num * 10 + (of_char c - of_char CHR ''0'')) True (Suc newi) cs)
      else Some (isnum, newi))"

definition parsenum :: "string \<Rightarrow> bool \<times> nat" where
  "parsenum s = (case parsenum_loop 0 False 0 s of None \<Rightarrow> (False, length s) | Some r \<Rightarrow> r)"

text \<open>
  \<^verbatim>\<open>parseArgNumber\<close> reads \<^verbatim>\<open>[n]\<close> at the head of its argument and \<^verbatim>\<open>argNumber\<close>
  calls it when the next byte is an opening bracket. With no operands every index is out
  of range: the result is the number of bytes read, whether an index was found, and
  \<^verbatim>\<open>goodArgNum\<close>.
\<close>

definition parseArgNumber :: "string \<Rightarrow> nat \<times> bool" where
  "parseArgNumber format =
     (if length format < 3 then (1, False)
      else (let inner = takeWhile (\<lambda>c. c \<noteq> CHR '']'') (tl format);
                i = Suc (length inner)
            in if length format \<le> i then (1, False)
               else (case parsenum inner of
                       (ok, newi) \<Rightarrow> if \<not> ok \<or> Suc newi \<noteq> i then (i + 1, False) else (i + 1, True))))"

definition argNumber :: "string \<Rightarrow> bool \<Rightarrow> nat \<times> bool \<times> bool" where
  "argNumber format goodArgNum =
     (if take 1 format = ''['' then (case parseArgNumber format of (wid, ok) \<Rightarrow> (wid, ok, False))
      else (0, False, goodArgNum))"

text \<open>
  One rune at the head of a string, as the bytes that writing it back produces, and its
  width: an invalid encoding is one byte wide and is written back as U+FFFD.
\<close>

definition RuneError :: string where
  "RuneError = [char_of (0xEF :: nat), char_of (0xBF :: nat), char_of (0xBD :: nat)]"

definition between :: "nat \<Rightarrow> nat \<Rightarrow> char \<Rightarrow> bool" where
  "between lo hi c = (lo \<le> of_char c \<and> of_char c \<le> hi)"

definition DecodeRuneInString :: "string \<Rightarrow> string \<times> nat" where
  "DecodeRuneInString s =
     (case s of
        [] \<Rightarrow> (RuneError, 0)
      | s0 # rest \<Rightarrow>
         (let b = (of_char s0 :: nat) in
          if b < 0x80 then ([s0], 1)
          else (case (if 0xC2 \<le> b \<and> b \<le> 0xDF then (2, 0x80, 0xBF)
                      else if b = 0xE0 then (3, 0xA0, 0xBF)
                      else if b = 0xED then (3, 0x80, 0x9F)
                      else if 0xE1 \<le> b \<and> b \<le> 0xEF then (3, 0x80, 0xBF)
                      else if b = 0xF0 then (4, 0x90, 0xBF)
                      else if 0xF1 \<le> b \<and> b \<le> 0xF3 then (4, 0x80, 0xBF)
                      else if b = 0xF4 then (4, 0x80, 0x8F)
                      else (0 :: nat, 0 :: nat, 0 :: nat)) of
                  (sz, lo, hi) \<Rightarrow>
                    if sz = 0 \<or> length s < sz then (RuneError, 1)
                    else if \<not> between lo hi (s ! 1) then (RuneError, 1)
                    else if sz \<le> 2 then (take 2 s, 2)
                    else if \<not> between 0x80 0xBF (s ! 2) then (RuneError, 1)
                    else if sz \<le> 3 then (take 3 s, 3)
                    else if \<not> between 0x80 0xBF (s ! 3) then (RuneError, 1)
                    else (take 4 s, 4))))"

text \<open>
  What \<^verbatim>\<open>doPrintf\<close> does after a percent sign, on the rest of the format: the text it
  prints and the number of bytes it reads. The four steps are the flags and the first
  operand index, the width, the precision, and the last operand index with the verb.
\<close>

definition printVerb :: "string \<Rightarrow> string \<times> nat" where
  "printVerb cs =
     (let i0 = length (takeWhile isFlag cs) in
      case argNumber (drop i0 cs) True of (n1, afterIndex1, good1) \<Rightarrow>
      let i1 = i0 + n1 in
      case (if take 1 (drop i1 cs) = ''*'' then (''%!(BADWIDTH)'', i1 + 1, False, good1)
            else (case parsenum (drop i1 cs) of
                    (widPresent, n) \<Rightarrow> ([], i1 + n, afterIndex1, good1 \<and> \<not> (afterIndex1 \<and> widPresent))))
      of (out_w, i2, afterIndex2, good2) \<Rightarrow>
      case (if take 1 (drop i2 cs) = ''.''
            then (case argNumber (drop (i2 + 1) cs) (good2 \<and> \<not> afterIndex2) of
                    (n, found, good) \<Rightarrow>
                      if take 1 (drop (i2 + 1 + n) cs) = ''*''
                      then (''%!(BADPREC)'', i2 + 1 + n + 1, False, good)
                      else (case parsenum (drop (i2 + 1 + n) cs) of
                              (precPresent, m) \<Rightarrow> ([], i2 + 1 + n + m, found, good)))
            else ([], i2, afterIndex2, good2))
      of (out_p, i3, afterIndex3, good3) \<Rightarrow>
      case (if \<not> afterIndex3 then argNumber (drop i3 cs) good3 else (0, True, good3))
      of (n4, afterIndex4, good4) \<Rightarrow>
      let i4 = i3 + n4 in
      if length cs \<le> i4 then (out_w @ out_p @ ''%!(NOVERB)'', length cs)
      else (case DecodeRuneInString (drop i4 cs) of
              (verb, width) \<Rightarrow>
                (out_w @ out_p @
                   (if verb = ''%'' then ''%''
                    else if \<not> good4 then ''%!'' @ verb @ ''(BADINDEX)''
                    else ''%!'' @ verb @ ''(MISSING)''),
                 i4 + width)))"

fun doPrintf :: "string \<Rightarrow> string" where
  "doPrintf [] = []"
| "doPrintf (c # cs) =
     (if c \<noteq> CHR ''%'' then c # doPrintf cs
      else (case printVerb cs of (out, n) \<Rightarrow> out @ doPrintf (drop n cs)))"

subsection \<open>VerifyCommand.Run: one test case\<close>

text \<open>
  The paths that the loop over \<^verbatim>\<open>relPaths\<close> visits: the files of the golden data
  directory, then those of the rendered directory, collected in one map and sorted as
  strings (\<^verbatim>\<open>sort.Strings\<close>).
\<close>

definition collectRelPaths :: "node \<Rightarrow> path \<Rightarrow> path \<Rightarrow> goerr + path list" where
  "collectRelPaths fsys goldenDataDir tempDataDir =
     (case addTestFiles fsys [] goldenDataDir of
        (Some err, fileSet) \<Rightarrow> Inl err
      | (None, fileSet) \<Rightarrow>
         (case addTestFiles fsys fileSet tempDataDir of
            (Some err, fileSet') \<Rightarrow> Inl err
          | (None, fileSet') \<Rightarrow> Inr (sort_key path_string fileSet')))"

text \<open>
  The three failures that the loop records for a path, as it words them. The first two
  are made by \<^verbatim>\<open>fmt.Errorf(failureText)\<close>, the third by a format of its own with the
  message as an operand. \<open>failedToRead\<close> is the error with which \<^verbatim>\<open>Run\<close> returns when
  a file cannot be read.
\<close>

definition notRecorded :: "(string \<Rightarrow> string) \<Rightarrow> (string \<Rightarrow> string) \<Rightarrow> path \<Rightarrow> goerr" where
  "notRecorded sprintf red goldenFile =
     ErrText (sprintf (red (''-- ['' @ TrimSuffix (path_string goldenFile) abcRenameSuffix
                            @ ''] generated, however not recorded in test data'')))"

definition expectedMissing :: "(string \<Rightarrow> string) \<Rightarrow> (string \<Rightarrow> string) \<Rightarrow> path \<Rightarrow> goerr" where
  "expectedMissing sprintf red goldenFile =
     ErrText (sprintf (red (''-- ['' @ TrimSuffix (path_string goldenFile) abcRenameSuffix
                            @ ''] expected, however missing'')))"

definition failedToRead :: "path \<Rightarrow> goerr \<Rightarrow> goerr" where
  "failedToRead file err =
     Wrapped (''failed to read ('' @ TrimSuffix (path_string file) abcRenameSuffix @ ''): '') err"

definition contentMismatch :: "(string \<Rightarrow> string) \<Rightarrow> DiffMatchPatch \<Rightarrow> path \<Rightarrow> Diff list \<Rightarrow> goerr" where
  "contentMismatch red dmp goldenFile diffs =
     ErrText (red (''-- ['' @ TrimSuffix (path_string goldenFile) abcRenameSuffix
                   @ ''] file content mismatch'') @ '':'' @ [CHR 0x0A] @ DiffPrettyText dmp diffs)"

text \<open>
  The loop over \<^verbatim>\<open>relPaths\<close>, with its two variables \<^verbatim>\<open>tcErr\<close> and
  \<^verbatim>\<open>outputMismatch\<close>. \<open>Inl\<close> is the \<^verbatim>\<open>return\<close> that leaves \<^verbatim>\<open>Run\<close> from inside
  the loop.
\<close>

fun compareFiles ::
  "node \<Rightarrow> (string \<Rightarrow> string) \<Rightarrow> (string \<Rightarrow> string) \<Rightarrow> DiffMatchPatch \<Rightarrow> path \<Rightarrow> path \<Rightarrow> path list
     \<Rightarrow> goerr option \<times> bool \<Rightarrow> goerr + (goerr option \<times> bool)" where
  "compareFiles fsys sprintf red dmp goldenDataDir tempDataDir [] (tcErr, outputMismatch) =
     Inr (tcErr, outputMismatch)"
| "compareFiles fsys sprintf red dmp goldenDataDir tempDataDir (relPath # relPaths) (tcErr, outputMismatch) =
     (let goldenFile = Join goldenDataDir relPath;
          tempFile = Join tempDataDir relPath
      in case os_ReadFile fsys goldenFile of
           Inl err \<Rightarrow>
             if errors_Is_NotExist err
             then compareFiles fsys sprintf red dmp goldenDataDir tempDataDir relPaths
                    (errors_Join [tcErr, Some (notRecorded sprintf red goldenFile)], True)
             else Inl (failedToRead goldenFile err)
         | Inr goldenContent \<Rightarrow>
            (case os_ReadFile fsys tempFile of
               Inl err \<Rightarrow>
                 if errors_Is_NotExist err
                 then compareFiles fsys sprintf red dmp goldenDataDir tempDataDir relPaths
                        (errors_Join [tcErr, Some (expectedMissing sprintf red goldenFile)], outputMismatch)
                 else Inl (failedToRead tempFile err)
             | Inr tempContent \<Rightarrow>
                 (let diffs = DiffMain dmp tempContent goldenContent
                  in if hasDiff diffs
                     then compareFiles fsys sprintf red dmp goldenDataDir tempDataDir relPaths
                            (errors_Join [tcErr, Some (contentMismatch red dmp goldenFile diffs)], True)
                     else compareFiles fsys sprintf red dmp goldenDataDir tempDataDir relPaths
                            (tcErr, outputMismatch))))"

text \<open>
  The two failures that are recorded after the loop, as \<^verbatim>\<open>Run\<close> words them; the
  second is made by \<^verbatim>\<open>fmt.Errorf(failureText)\<close> again.
\<close>

definition printedDiffer :: "(string \<Rightarrow> string) \<Rightarrow> DiffMatchPatch \<Rightarrow> Diff list \<Rightarrow> goerr" where
  "printedDiffer red dmp stdoutDiff =
     ErrText (red ''the printed messages differ between the recorded golden output and the actual output''
              @ '':'' @ [CHR 0x0A] @ DiffPrettyText dmp stdoutDiff)"

definition didNotMatch :: "(string \<Rightarrow> string) \<Rightarrow> (string \<Rightarrow> string) \<Rightarrow> string \<Rightarrow> goerr" where
  "didNotMatch sprintf red testName =
     ErrText (sprintf (red (''golden test ['' @ testName @ ''] didn't match actual output, you might ''
                            @ ''need to run 'record' command to capture it as the new expected output'')))"

text \<open>
  The body of the loop over the test cases of \<^verbatim>\<open>VerifyCommand.Run\<close>, from the data
  directories to the final value of \<^verbatim>\<open>tcErr\<close>: nil when the test case succeeds. \<open>Inl\<close>
  is an error with which \<^verbatim>\<open>Run\<close> returns at once.
\<close>

definition verifyTestCase ::
  "node \<Rightarrow> (string \<Rightarrow> string) \<Rightarrow> (string \<Rightarrow> string) \<Rightarrow> DiffMatchPatch \<Rightarrow> path \<Rightarrow> path \<Rightarrow> string
     \<Rightarrow> goerr + goerr option" where
  "verifyTestCase fsys sprintf red dmp location tempDir testName =
     (let goldenDataDir = Join location (Join goldenTestDir [testName, testDataDir]);
          tempDataDir = Join tempDir (Join goldenTestDir [testName, testDataDir]);
          goldenStdoutFile = Join goldenDataDir [ABCInternalDir, ABCInternalStdout];
          tempStdoutFile = Join tempDataDir [ABCInternalDir, ABCInternalStdout]
      in case collectRelPaths fsys goldenDataDir tempDataDir of
           Inl err \<Rightarrow> Inl err
         | Inr relPaths \<Rightarrow>
            (case compareFiles fsys sprintf red dmp goldenDataDir tempDataDir relPaths (None, False) of
               Inl err \<Rightarrow> Inl err
             | Inr (tcErr, outputMismatch) \<Rightarrow>
                (case getStdoutDiff fsys goldenStdoutFile tempStdoutFile dmp of
                   Inl err \<Rightarrow> Inl (Wrapped ''failed to compare stdout:'' err)
                 | Inr stdoutDiff \<Rightarrow>
                    (let (tcErr1, outputMismatch1) =
                           (if hasDiff stdoutDiff
                            then (errors_Join [tcErr, Some (printedDiffer red dmp stdoutDiff)], True)
                            else (tcErr, outputMismatch))
                     in if outputMismatch1
                        then Inr (errors_Join [tcErr1, Some (didNotMatch sprintf red testName)])
                        else Inr tcErr1))))"

subsection \<open>What the walk is meant to collect\<close>

text \<open>
  The relative paths of all regular files of a tree, and those of them that are not
  reserved.
\<close>

fun all_files :: "node \<Rightarrow> path list" and all_files_entries :: "(string \<times> node) list \<Rightarrow> path list" where
  "all_files (File c) = [[]]"
| "all_files (Dir es) = all_files_entries es"
| "all_files_entries [] = []"
| "all_files_entries ((n1, d1) # rest) = map ((#) n1) (all_files d1) @ all_files_entries rest"

definition comparable_files :: "node \<Rightarrow> path list" where
  "comparable_files d = filter (\<lambda>p. \<not> IsReservedInDest p) (all_files d)"

subsection \<open>What the loop records, path by path\<close>

text \<open>
  Adding a list of paths to the map, one by one; what one round of the loop over
  \<^verbatim>\<open>relPaths\<close> adds to \<^verbatim>\<open>tcErr\<close> when both reads end without an error other than
  "not exist"; whether the round sets \<^verbatim>\<open>outputMismatch\<close>; and whether the round leaves
  \<^verbatim>\<open>Run\<close> with a read error, and with which.
\<close>

definition add_all :: "path list \<Rightarrow> path list \<Rightarrow> path list" where
  "add_all fileSet ps = foldl (\<lambda>s p. List.insert p s) fileSet ps"

definition findings ::
  "node \<Rightarrow> (string \<Rightarrow> string) \<Rightarrow> (string \<Rightarrow> string) \<Rightarrow> DiffMatchPatch \<Rightarrow> path \<Rightarrow> path \<Rightarrow> path
     \<Rightarrow> goerr list" where
  "findings fsys sprintf red dmp goldenDataDir tempDataDir relPath =
     (case os_ReadFile fsys (Join goldenDataDir relPath) of
        Inl err \<Rightarrow> [notRecorded sprintf red (Join goldenDataDir relPath)]
      | Inr goldenContent \<Rightarrow>
         (case os_ReadFile fsys (Join tempDataDir relPath) of
            Inl err \<Rightarrow> [expectedMissing sprintf red (Join goldenDataDir relPath)]
          | Inr tempContent \<Rightarrow>
              if hasDiff (DiffMain dmp tempContent goldenContent)
              then [contentMismatch red dmp (Join goldenDataDir relPath)
                      (DiffMain dmp tempContent goldenContent)]
              else []))"

definition flags_mismatch :: "node \<Rightarrow> DiffMatchPatch \<Rightarrow> path \<Rightarrow> path \<Rightarrow> path \<Rightarrow> bool" where
  "flags_mismatch fsys dmp goldenDataDir tempDataDir relPath =
     (case os_ReadFile fsys (Join goldenDataDir relPath) of
        Inl err \<Rightarrow> True
      | Inr goldenContent \<Rightarrow>
         (case os_ReadFile fsys (Join tempDataDir relPath) of
            Inl err \<Rightarrow> False
          | Inr tempContent \<Rightarrow> hasDiff (DiffMain dmp tempContent goldenContent)))"

definition read_fails :: "node \<Rightarrow> path \<Rightarrow> path \<Rightarrow> path \<Rightarrow> bool" where
  "read_fails fsys goldenDataDir tempDataDir relPath =
     (case os_ReadFile fsys (Join goldenDataDir relPath) of
        Inl err \<Rightarrow> \<not> errors_Is_NotExist err
      | Inr goldenContent \<Rightarrow>
         (case os_ReadFile fsys (Join tempDataDir relPath) of
            Inl err \<Rightarrow> \<not> errors_Is_NotExist err
          | Inr tempContent \<Rightarrow> False))"

text \<open>
  The error with which a round leaves \<^verbatim>\<open>Run\<close>: the golden file is read first, and the
  rendered file only when the golden file could be read.
\<close>

definition read_error :: "node \<Rightarrow> path \<Rightarrow> path \<Rightarrow> path \<Rightarrow> goerr option" where
  "read_error fsys goldenDataDir tempDataDir relPath =
     (case os_ReadFile fsys (Join goldenDataDir relPath) of
        Inl err \<Rightarrow>
          if errors_Is_NotExist err then None else Some (failedToRead (Join goldenDataDir relPath) err)
      | Inr goldenContent \<Rightarrow>
         (case os_ReadFile fsys (Join tempDataDir relPath) of
            Inl err \<Rightarrow>
              if errors_Is_NotExist err then None else Some (failedToRead (Join tempDataDir relPath) err)
          | Inr tempContent \<Rightarrow> None))"

text \<open>
  The printed output that \<^verbatim>\<open>getStdoutDiff\<close> compares for one side: the contents of the
  file, or nothing when the file does not exist. A genuine read error is a failed read
  that is not "not exist".
\<close>

definition stdout_content :: "goerr + string \<Rightarrow> string" where
  "stdout_content r = (case r of Inl err \<Rightarrow> [] | Inr content \<Rightarrow> content)"

definition genuine_read_error :: "goerr + string \<Rightarrow> bool" where
  "genuine_read_error r = (case r of Inl err \<Rightarrow> \<not> errors_Is_NotExist err | Inr content \<Rightarrow> False)"

subsection \<open>A small golden test\<close>

text \<open>
  A template in \<^verbatim>\<open>template\<close> with one golden test \<^verbatim>\<open>test\<close>, and its fresh rendering
  under \<^verbatim>\<open>tmp\<close>: \<^verbatim>\<open>a.txt\<close> is on both sides, \<^verbatim>\<open>b.txt\<close> only in the golden data,
  \<^verbatim>\<open>c.txt\<close> only in the rendering; both sides printed the same message. The diff
  function is a simple one: nothing but equal text for equal arguments, a deletion and an
  insertion otherwise.
\<close>

definition demo_golden :: node where
  "demo_golden = Dir [(''.abc'', Dir [(''.gitkeep'', File []), (''stdout'', File ''Hello'')]),
                      (''a.txt'', File ''file A content''),
                      (''b.txt'', File ''file B content'')]"

definition demo_temp :: node where
  "demo_temp = Dir [(''.abc'', Dir [(''stdout'', File ''Hello'')]),
                    (''a.txt'', File ''file A content''),
                    (''c.txt'', File ''file C content'')]"

definition demo_fs :: node where
  "demo_fs = Dir [(''template'', Dir [(''testdata'', Dir [(''golden'', Dir [(''test'', Dir [(''data'', demo_golden)])])])]),
                  (''tmp'', Dir [(''testdata'', Dir [(''golden'', Dir [(''test'', Dir [(''data'', demo_temp)])])])])]"

definition demo_dmp :: DiffMatchPatch where
  "demo_dmp = \<lparr>DiffMain = (\<lambda>a b. if a = b then (if a = [] then [] else [\<lparr>Diff_Type = DiffEqual, Diff_Text = a\<rparr>])
                                 else [\<lparr>Diff_Type = DiffDelete, Diff_Text = a\<rparr>, \<lparr>Diff_Type = DiffInsert, Diff_Text = b\<rparr>]),
               DiffPrettyText = (\<lambda>ds. concat (map Diff_Text ds))\<rparr>"

definition demo_goldenDataDir :: path where
  "demo_goldenDataDir = [''template'', ''testdata'', ''golden'', ''test'', ''data'']"

definition demo_tempDataDir :: path where
  "demo_tempDataDir = [''tmp'', ''testdata'', ''golden'', ''test'', ''data'']"

text \<open>
  A second rendering of the same template, with one finding of every kind: the file
  \<^verbatim>\<open>100%d.txt\<close> and \<^verbatim>\<open>b.txt\<close> are only in the golden data, \<^verbatim>\<open>a.txt\<close> differs,
  \<^verbatim>\<open>c.txt\<close> is only in the rendering, and the printed messages differ.
\<close>

definition report_golden :: node where
  "report_golden = Dir [(''.abc'', Dir [(''stdout'', File ''Hello'')]),
                        (''b.txt'', File ''B''),
                        (''a.txt'', File ''A''),
                        (''100%d.txt'', File ''D'')]"

definition report_temp :: node where
  "report_temp = Dir [(''c.txt'', File ''C''),
                      (''a.txt'', File ''A2''),
                      (''.abc'', Dir [(''stdout'', File ''Bye'')])]"

definition report_fs :: node where
  "report_fs = Dir [(''template'', Dir [(''testdata'', Dir [(''golden'', Dir [(''test'', Dir [(''data'', report_golden)])])])]),
                    (''tmp'', Dir [(''testdata'', Dir [(''golden'', Dir [(''test'', Dir [(''data'', report_temp)])])])])]"

text \<open>
  A third one, in which \<^verbatim>\<open>a\<close> is a regular file in the golden data and a directory in
  the rendering, so that \<^verbatim>\<open>a/b.txt\<close> is a file of the rendering only; a template
  whose recorded \<^verbatim>\<open>.abc/stdout\<close> is a directory; and a template whose golden test has
  no data directory.
\<close>

definition conflict_golden :: node where
  "conflict_golden = Dir [(''a'', File ''x'')]"

definition conflict_temp :: node where
  "conflict_temp = Dir [(''a'', Dir [(''b.txt'', File ''y'')])]"

definition conflict_fs :: node where
  "conflict_fs = Dir [(''template'', Dir [(''testdata'', Dir [(''golden'', Dir [(''test'', Dir [(''data'', conflict_golden)])])])]),
                      (''tmp'', Dir [(''testdata'', Dir [(''golden'', Dir [(''test'', Dir [(''data'', conflict_temp)])])])])]"

definition unreadable_fs :: node where
  "unreadable_fs = Dir [(''template'', Dir [(''testdata'', Dir [(''golden'', Dir [(''test'', Dir [(''data'',
                           Dir [(''.abc'', Dir [(''stdout'', Dir [])])])])])])]),
                        (''tmp'', Dir [(''testdata'', Dir [(''golden'', Dir [(''test'', Dir [(''data'', Dir [])])])])])]"

definition unrecorded_fs :: node where
  "unrecorded_fs = Dir [(''template'', Dir [(''testdata'', Dir [(''golden'', Dir [(''test'', Dir [])])])]),
                        (''tmp'', Dir [(''testdata'', Dir [(''golden'', Dir [(''test'', Dir [(''data'', demo_temp)])])])])]"

section \<open>Package render: the string_replace action\<close>

subsection \<open>strings.NewReplacer and Replacer.Replace\<close>

text \<open>
  \<^verbatim>\<open>strings.NewReplacer\<close> of the Go library takes the old and new strings in turn and
  panics on an odd number of arguments (\<open>None\<close>). \<^verbatim>\<open>Replace\<close> walks the text once from
  left to right: at every position it looks up the old strings that start there in argument
  order and takes the first; it writes the new string and goes on behind the match, so
  matches do not overlap and what has been written is not looked at again; where nothing
  starts it copies one byte. An empty old string matches at every position, but not twice
  in a row at the same one: \<open>prevMatchEmpty\<close> is the flag of the library's loop.
\<close>

type_synonym Replacer = "(string \<times> string) list"

fun NewReplacer :: "string list \<Rightarrow> Replacer option" where
  "NewReplacer [] = Some []"
| "NewReplacer [old] = None"
| "NewReplacer (old # new # oldnew) = map_option ((#) (old, new)) (NewReplacer oldnew)"

fun replacer_lookup :: "Replacer \<Rightarrow> string \<Rightarrow> bool \<Rightarrow> (string \<times> string) option" where
  "replacer_lookup [] s ignoreRoot = None"
| "replacer_lookup ((old, new) # r) s ignoreRoot =
     (if take (length old) s = old \<and> \<not> (ignoreRoot \<and> old = []) then Some (old, new)
      else replacer_lookup r s ignoreRoot)"

function replace_from :: "Replacer \<Rightarrow> string \<Rightarrow> bool \<Rightarrow> string" where
  "replace_from r s prevMatchEmpty =
     (case replacer_lookup r s prevMatchEmpty of
        Some (old, new) \<Rightarrow> new @ replace_from r (drop (length old) s) (old = [])
      | None \<Rightarrow> (case s of [] \<Rightarrow> [] | c # cs \<Rightarrow> c # replace_from r cs False))"
  by pat_completeness auto

termination replace_from
proof (relation "measure (\<lambda>(r, s, prevMatchEmpty). 2 * length s + (if prevMatchEmpty then 0 else 1))")
  show "wf (measure (\<lambda>(r, s, prevMatchEmpty). 2 * length s + (if prevMatchEmpty then 0 else 1)))"
    by simp
next
  fix r :: Replacer and s :: string and prevMatchEmpty x2 old new
  assume "replacer_lookup r s prevMatchEmpty = Some x2" and "(old, new) = x2"
  then have "replacer_lookup r s prevMatchEmpty = Some (old, new)"
    by simp
  then have m: "take (length old) s = old" "\<not> (prevMatchEmpty \<and> old = [])"
    by (induction r) (auto split: if_splits)
  show "((r, drop (length old) s, old = []), r, s, prevMatchEmpty)
          \<in> measure (\<lambda>(r, s, prevMatchEmpty). 2 * length s + (if prevMatchEmpty then 0 else 1))"
  proof (cases "old = []")
    case True
    with m show ?thesis by simp
  next
    case False
    from m(1) have "min (length s) (length old) = length old"
      by (metis length_take)
    then have le: "length old \<le> length s"
      by simp
    from False have pos: "0 < length old"
      by simp
    from le pos have "2 * (length s - length old) + 1 < 2 * length s"
      by arith
    with False show ?thesis
      by (cases prevMatchEmpty) simp_all
  qed
next
  fix r :: Replacer and s :: string and prevMatchEmpty c cs
  assume "s = c # cs"
  then show "((r, cs, False), r, s, prevMatchEmpty)
          \<in> measure (\<lambda>(r, s, prevMatchEmpty). 2 * length s + (if prevMatchEmpty then 0 else 1))"
    by simp
qed

declare replace_from.simps [simp del]

definition Replace :: "Replacer \<Rightarrow> string \<Rightarrow> string" where
  "Replace r s = replace_from r s False"

subsection \<open>actionStringReplace (action_stringreplace.go)\<close>

record StringReplacement =
  ToReplace :: model_String
  With :: model_String

record StringReplace =
  Paths :: "model_String list"
  Replacements :: "StringReplacement list"

text \<open>
  The action works through two helpers of package render that are defined outside the
  files at hand: \<^verbatim>\<open>parseAndExecuteGoTmpl\<close> expands a string against the scope, and
  \<^verbatim>\<open>walkAndModify\<close> hands the contents of the files under the given paths to a visitor
  and writes back what it returns. Both are parameters; \<open>'scope\<close> is the scope of the
  step and \<open>'fs\<close> the state of the scratch directory that \<^verbatim>\<open>walkAndModify\<close> changes.
\<close>

record ('scope, 'fs) render_host =
  parseAndExecuteGoTmpl :: "ConfigPos \<Rightarrow> string \<Rightarrow> 'scope \<Rightarrow> goerr + string"
  walkAndModify :: "'scope \<Rightarrow> model_String list \<Rightarrow> (string \<Rightarrow> goerr + string) \<Rightarrow> 'fs \<Rightarrow> goerr option \<times> 'fs"

text \<open>
  The loop over \<^verbatim>\<open>sr.Replacements\<close> with its variable \<^verbatim>\<open>replacerArgs\<close>; \<open>Inl\<close> is
  the \<^verbatim>\<open>return err\<close> inside the loop.
\<close>

fun expandReplacements ::
  "('scope, 'fs) render_host \<Rightarrow> 'scope \<Rightarrow> StringReplacement list \<Rightarrow> string list \<Rightarrow> goerr + string list" where
  "expandReplacements h scope [] replacerArgs = Inr replacerArgs"
| "expandReplacements h scope (r # rs) replacerArgs =
     (case parseAndExecuteGoTmpl h (Pos (ToReplace r)) (Val (ToReplace r)) scope of
        Inl err \<Rightarrow> Inl err
      | Inr toReplace \<Rightarrow>
         (case parseAndExecuteGoTmpl h (Pos (With r)) (Val (With r)) scope of
            Inl err \<Rightarrow> Inl err
          | Inr replaceWith \<Rightarrow>
              expandReplacements h scope rs (replacerArgs @ [toReplace, replaceWith])))"

text \<open>
  The step parameters are reduced to the scope, the one field that the action reads. The
  result is the error of the action and the scratch directory as the action leaves it.
\<close>

definition actionStringReplace ::
  "('scope, 'fs) render_host \<Rightarrow> StringReplace \<Rightarrow> 'scope \<Rightarrow> 'fs \<Rightarrow> goerr option \<times> 'fs" where
  "actionStringReplace h sr scope scratch =
     (case expandReplacements h scope (Replacements sr) [] of
        Inl err \<Rightarrow> (Some err, scratch)
      | Inr replacerArgs \<Rightarrow>
         (case NewReplacer replacerArgs of
            None \<Rightarrow> (Some (ErrText ''strings.NewReplacer: odd argument count''), scratch)
          | Some replacer \<Rightarrow>
              walkAndModify h scope (Paths sr) (\<lambda>buf. Inr (Replace replacer buf)) scratch))"

subsection \<open>What the action is meant to do\<close>

text \<open>
  The pairs of expanded strings of a list of replacements, when every expansion succeeds,
  and the first error otherwise; and the first pair of a replacer whose old string starts
  the text.
\<close>

fun expanded_pairs ::
  "('scope, 'fs) render_host \<Rightarrow> 'scope \<Rightarrow> StringReplacement list \<Rightarrow> goerr + (string \<times> string) list" where
  "expanded_pairs h scope [] = Inr []"
| "expanded_pairs h scope (r # rs) =
     (case parseAndExecuteGoTmpl h (Pos (ToReplace r)) (Val (ToReplace r)) scope of
        Inl err \<Rightarrow> Inl err
      | Inr toReplace \<Rightarrow>
         (case parseAndExecuteGoTmpl h (Pos (With r)) (Val (With r)) scope of
            Inl err \<Rightarrow> Inl err
          | Inr replaceWith \<Rightarrow>
             (case expanded_pairs h scope rs of
                Inl err \<Rightarrow> Inl err
              | Inr pairs \<Rightarrow> Inr ((toReplace, replaceWith) # pairs))))"

definition starts_with :: "string \<Rightarrow> string \<Rightarrow> bool" where
  "starts_with s old = (take (length old) s = old)"

subsection \<open>A small string_replace step\<close>

text \<open>
  An expander that knows the one placeholder \<^verbatim>\<open>{{.name}}\<close>, a scratch directory that is
  a list of files with their contents, all of them visited, and a step with three
  replacements of which the second and the third can start at the same position.
\<close>

definition demo_expand :: "ConfigPos \<Rightarrow> string \<Rightarrow> (string \<times> string) list \<Rightarrow> goerr + string" where
  "demo_expand pos s scope =
     (if s = ''{{.name}}''
      then (case map_of scope ''name'' of
              Some v \<Rightarrow> Inr v
            | None \<Rightarrow> Inl (ErrText ''undefined variable: name''))
      else Inr s)"

fun demo_walk :: "(string \<Rightarrow> goerr + string) \<Rightarrow> (string \<times> string) list \<Rightarrow> goerr option \<times> (string \<times> string) list" where
  "demo_walk visitor [] = (None, [])"
| "demo_walk visitor ((name, buf) # files) =
     (case visitor buf of
        Inl err \<Rightarrow> (Some err, (name, buf) # files)
      | Inr buf' \<Rightarrow> (case demo_walk visitor files of (err, files') \<Rightarrow> (err, (name, buf') # files')))"

definition demo_render_host :: "((string \<times> string) list, (string \<times> string) list) render_host" where
  "demo_render_host =
     \<lparr>parseAndExecuteGoTmpl = demo_expand,
      walkAndModify = (\<lambda>scope paths visitor files. demo_walk visitor files)\<rparr>"

definition demo_sr :: StringReplace where
  "demo_sr = \<lparr>Paths = [\<lparr>Pos = pos1, Val = ''.''\<rparr>],
              Replacements = [\<lparr>ToReplace = \<lparr>Pos = pos1, Val = ''[name]''\<rparr>,
                               With = \<lparr>Pos = pos1, Val = ''{{.name}}''\<rparr>\<rparr>,
                              \<lparr>ToReplace = \<lparr>Pos = pos2, Val = ''hell''\<rparr>,
                               With = \<lparr>Pos = pos2, Val = ''heaven''\<rparr>\<rparr>,
                              \<lparr>ToReplace = \<lparr>Pos = pos2, Val = ''hello''\<rparr>,
                               With = \<lparr>Pos = pos2, Val = ''goodbye''\<rparr>\<rparr>]\<rparr>"

section \<open>Package render: the manifest writer\<close>

subsection \<open>Time\<close>

text \<open>
  A \<^verbatim>\<open>time.Time\<close> of Go: an instant, as the seconds since 1970-01-01T00:00:00Z and the
  nanoseconds within the second, together with the offset of its location in seconds east
  of UTC. \<^verbatim>\<open>UTC()\<close> keeps the instant and sets the location to UTC.
\<close>

record Time =
  unix_sec :: int
  nsec :: nat
  zone_offset :: int

definition Time_UTC :: "Time \<Rightarrow> Time" where
  "Time_UTC t = t\<lparr>zone_offset := 0\<rparr>"

text \<open>
  The civil date of a day number (days since 1970-01-01) in the proleptic Gregorian
  calendar and back, by the usual era arithmetic on 400-year cycles of 146097 days
  starting on 1 March.
\<close>

definition civil_from_days :: "int \<Rightarrow> int \<times> int \<times> int" where
  "civil_from_days days =
     (let z = days + 719468;
          era = z div 146097;
          doe = z mod 146097;
          yoe = (doe - doe div 1460 + doe div 36524 - doe div 146096) div 365;
          doy = doe - (365 * yoe + yoe div 4 - yoe div 100);
          mp = (5 * doy + 2) div 153;
          d = doy - (153 * mp + 2) div 5 + 1;
          m = (if mp < 10 then mp + 3 else mp - 9);
          y = yoe + era * 400 + (if m \<le> 2 then 1 else 0)
      in (y, m, d))"

definition days_from_civil :: "int \<Rightarrow> int \<Rightarrow> int \<Rightarrow> int" where
  "days_from_civil y m d =
     (let y' = (if m \<le> 2 then y - 1 else y);
          era = y' div 400;
          yoe = y' mod 400;
          doy = (153 * (if m > 2 then m - 3 else m + 9) + 2) div 5 + d - 1;
          doe = yoe * 365 + yoe div 4 - yoe div 100 + doy
      in era * 146097 + doe - 719468)"

text \<open>\<^verbatim>\<open>time.Date\<close> for a location with a fixed offset.\<close>

definition time_Date :: "int \<Rightarrow> int \<Rightarrow> int \<Rightarrow> int \<Rightarrow> int \<Rightarrow> int \<Rightarrow> nat \<Rightarrow> int \<Rightarrow> Time" where
  "time_Date year month day hour minute sec ns offset =
     \<lparr>unix_sec = days_from_civil year month day * 86400 + hour * 3600 + minute * 60 + sec - offset,
      nsec = ns,
      zone_offset = offset\<rparr>"

text \<open>
  Decimal digits: the \<open>w\<close> lowest digits of a number that is not negative. The layout
  \<^verbatim>\<open>time.RFC3339Nano\<close> is \<^verbatim>\<open>2006-01-02T15:04:05.999999999Z07:00\<close>: the fraction of
  the second has up to nine digits, without the zeros at its end and with nothing at all
  for a whole second, and the zone is \<^verbatim>\<open>Z\<close> for UTC. Years are taken to have four
  digits.
\<close>

definition digit :: "int \<Rightarrow> char" where
  "digit d = ''0123456789'' ! nat d"

fun pad :: "nat \<Rightarrow> int \<Rightarrow> string" where
  "pad 0 n = []"
| "pad (Suc w) n = pad w (n div 10) @ [digit (n mod 10)]"

definition fraction :: "nat \<Rightarrow> string" where
  "fraction ns =
     (let digits = rev (dropWhile (\<lambda>c. c = CHR ''0'') (rev (pad 9 (int ns))))
      in if digits = [] then [] else ''.'' @ digits)"

definition zone :: "int \<Rightarrow> string" where
  "zone offset =
     (if offset = 0 then ''Z''
      else (if offset < 0 then ''-'' else ''+'')
           @ pad 2 (\<bar>offset\<bar> div 3600) @ '':'' @ pad 2 (\<bar>offset\<bar> div 60 mod 60))"

text \<open>The date and the time of day of a number of seconds since 1970-01-01T00:00:00.\<close>

definition civil_seconds :: "int \<Rightarrow> string" where
  "civil_seconds local =
     (let secs = local mod 86400
      in case civil_from_days (local div 86400) of
           (y, m, d) \<Rightarrow>
             pad 4 y @ ''-'' @ pad 2 m @ ''-'' @ pad 2 d @ ''T''
             @ pad 2 (secs div 3600) @ '':'' @ pad 2 (secs div 60 mod 60) @ '':'' @ pad 2 (secs mod 60))"

definition Format_RFC3339Nano :: "Time \<Rightarrow> string" where
  "Format_RFC3339Nano t =
     civil_seconds (unix_sec t + zone_offset t) @ fraction (nsec t) @ zone (zone_offset t)"

subsection \<open>writeManifest\<close>

text \<open>
  The manifest document of the spec; \<^verbatim>\<open>api_version\<close> and \<^verbatim>\<open>kind\<close> are constants of
  the serialization. Times are held in their serialized form.
\<close>

record Manifest =
  creation_time :: string
  modification_time :: string
  template_location :: string
  location_type :: string
  template_version :: string
  template_dirhash :: string
  manifest_inputs :: "(string \<times> string) list"
  output_hashes :: "(string \<times> string) list"

text \<open>
  The parameters of \<^verbatim>\<open>writeManifest\<close> as the test passes them. \<open>clock\<close> is the time
  that the injected clock shows; the two Go maps are lists of entries in some order of
  iteration. The file system is passed beside the parameters: the contents of the files by
  path.
\<close>

record writeManifestParams =
  clock :: Time
  destDir :: string
  dlMeta :: DownloadMetadata
  dryRun :: bool
  inputs :: "(string \<times> string) list"
  outputHashes :: "(string \<times> string) list"
  templateDir :: string

text \<open>
  What the writer takes from outside: the hash of the template directory, which reads the
  file system and may fail, the text form of an output hash, URL encoding, and the YAML
  encoder.
\<close>

record manifest_host =
  hash_dir :: "string \<Rightarrow> goerr + string"
  hash_string :: "string \<Rightarrow> string"
  url_escape :: "string \<Rightarrow> string"
  yaml_Marshal :: "Manifest \<Rightarrow> string"

definition manifest_header :: string where
  "manifest_header = ''# Generated by the \"abc templates\" command. Do not modify.'' @ [CHR 0x0A]"

text \<open>
  Modelled from the spec: \<^verbatim>\<open>writeManifest\<close> is exercised by manifest_test.go and defined
  outside the files at hand. By the spec the writer collects the timestamps from the
  injected clock (always serialized in UTC with nanosecond precision), the template hash,
  the inputs sorted by name and the output hashes sorted by file path, and writes a YAML
  document to \<^verbatim>\<open>.abc/manifest_<location-slug>_<timestamp>.lock.yaml\<close> under the
  destination, where the slug is the canonical source URL-encoded or the literal
  \<^verbatim>\<open>nolocation\<close> when there is none; non-canonical renders still emit a manifest, dry
  runs emit none. The test shows the comment line that heads the file.
\<close>

definition buildManifest :: "manifest_host \<Rightarrow> writeManifestParams \<Rightarrow> string \<Rightarrow> Manifest" where
  "buildManifest h p dirhash =
     (let now = Format_RFC3339Nano (Time_UTC (clock p))
      in \<lparr>creation_time = now,
          modification_time = now,
          template_location = CanonicalSource (dlMeta p),
          location_type = LocationType (dlMeta p),
          template_version = Version (dlMeta p),
          template_dirhash = dirhash,
          manifest_inputs = sort_key fst (inputs p),
          output_hashes = map (\<lambda>(file, hash). (file, hash_string h hash)) (sort_key fst (outputHashes p))\<rparr>)"

definition manifest_name :: "manifest_host \<Rightarrow> writeManifestParams \<Rightarrow> string" where
  "manifest_name h p =
     ''manifest_''
     @ (if IsCanonical (dlMeta p) then url_escape h (CanonicalSource (dlMeta p)) else ''nolocation'')
     @ ''_'' @ Format_RFC3339Nano (Time_UTC (clock p)) @ ''.lock.yaml''"

definition writeManifest ::
  "manifest_host \<Rightarrow> writeManifestParams \<Rightarrow> (string \<rightharpoonup> string) \<Rightarrow> goerr option \<times> (string \<rightharpoonup> string)" where
  "writeManifest h p fsys =
     (case hash_dir h (templateDir p) of
        Inl err \<Rightarrow> (Some err, fsys)
      | Inr dirhash \<Rightarrow>
          if dryRun p then (None, fsys)
          else (None, fsys(destDir p @ ''/.abc/'' @ manifest_name h p
                            \<mapsto> manifest_header @ yaml_Marshal h (buildManifest h p dirhash))))"

subsection \<open>The cases of TestWriteManifest\<close>

text \<open>
  The clock of the test shows 2023-12-08 15:59:02.000000013 in Los Angeles, eight hours
  west of UTC. The host encodes a slash as the test expects and returns the hashes that the
  test expects; its YAML encoder lists the fields one per line.
\<close>

definition mockClock :: Time where
  "mockClock = time_Date 2023 12 8 15 59 2 13 (- 8 * 3600)"

definition test_yaml :: "Manifest \<Rightarrow> string" where
  "test_yaml m =
     concat (map (\<lambda>(k, v). k @ '': '' @ v @ [CHR 0x0A])
       ([(''creation_time'', creation_time m), (''modification_time'', modification_time m),
         (''template_location'', template_location m), (''location_type'', location_type m),
         (''template_version'', template_version m), (''template_dirhash'', template_dirhash m)]
        @ map (\<lambda>(n, v). (''input '' @ n, v)) (manifest_inputs m)
        @ map (\<lambda>(f, hash). (''output '' @ f, hash)) (output_hashes m)))"

definition test_host :: manifest_host where
  "test_host =
     \<lparr>hash_dir = (\<lambda>dir. Inr ''h1:uh/nUYc3HpipWEon9kYOsvSrEadfu8Q9TdfBuHcnF3o=''),
      hash_string = (\<lambda>hash. ''h1:ZmFrZV9vdXRwdXRfaGFzaF8zMl9ieXRlc19zaGEyNTY=''),
      url_escape = (\<lambda>s. concat (map (\<lambda>c. if c = CHR ''/'' then ''%2F'' else [c]) s)),
      yaml_Marshal = test_yaml\<rparr>"

definition test_non_canonical :: writeManifestParams where
  "test_non_canonical =
     \<lparr>clock = mockClock,
      destDir = ''/dest'',
      dlMeta = \<lparr>IsCanonical = False, CanonicalSource = [], LocationType = [],
                HasVersion = False, Version = [],
                Vars = \<lparr>GitTag = [], GitSHA = [], GitShortSHA = []\<rparr>\<rparr>,
      dryRun = False,
      inputs = [(''pizza'', ''hawaiian''), (''pineapple'', ''deal with it'')],
      outputHashes = [(''a.txt'', ''fake_output_hash_32_bytes_sha256'')],
      templateDir = ''/template''\<rparr>"

definition test_canonical :: writeManifestParams where
  "test_canonical =
     test_non_canonical
       \<lparr>dlMeta := \<lparr>IsCanonical = True, CanonicalSource = ''github.com/foo/bar'',
                   LocationType = ''remote_git'', HasVersion = True, Version = ''v1.2.3'',
                   Vars = \<lparr>GitTag = [], GitSHA = [], GitShortSHA = []\<rparr>\<rparr>\<rparr>"

definition test_dryrun :: writeManifestParams where
  "test_dryrun =
     test_non_canonical
       \<lparr>dlMeta := \<lparr>IsCanonical = False, CanonicalSource = ''github.com/foo/bar'',
                   LocationType = [], HasVersion = False, Version = [],
                   Vars = \<lparr>GitTag = [], GitSHA = [], GitShortSHA = []\<rparr>\<rparr>,
        dryRun := True\<rparr>"

definition test_dest :: "string \<rightharpoonup> string" where
  "test_dest = [''/dest/a.txt'' \<mapsto> ''some other stuff'']"

section \<open>A Unix host for the local downloader\<close>

text \<open>
  The path functions of \<^verbatim>\<open>path/filepath\<close> on Unix, for paths without \<^verbatim>\<open>.\<close> and
  \<^verbatim>\<open>..\<close> components: a path is absolute when it starts with a slash, its components are
  what lies between the slashes, and joining and relating paths works on the components as
  for the file tree above.
\<close>

fun split_on_slash :: "string \<Rightarrow> string list" where
  "split_on_slash [] = [[]]"
| "split_on_slash (c # cs) =
     (if c = CHR ''/'' then [] # split_on_slash cs
      else (case split_on_slash cs of [] \<Rightarrow> [[c]] | w # ws \<Rightarrow> (c # w) # ws))"

definition split_path :: "string \<Rightarrow> path" where
  "split_path s = filter (\<lambda>c. c \<noteq> []) (split_on_slash s)"

definition unix_IsAbs :: "string \<Rightarrow> bool" where
  "unix_IsAbs p = (take 1 p = ''/'')"

definition unix_Join :: "string \<Rightarrow> string \<Rightarrow> string" where
  "unix_Join a b =
     (if unix_IsAbs a then ''/'' @ slash_join (split_path a @ split_path b)
      else path_string (split_path a @ split_path b))"

definition unix_Rel :: "string \<Rightarrow> string \<Rightarrow> goerr + string" where
  "unix_Rel basepath targpath =
     (if unix_IsAbs basepath \<noteq> unix_IsAbs targpath
      then Inl (ErrText ''Rel: can't make target relative to base'')
      else (case Rel (split_path basepath) (split_path targpath) of
              Inl err \<Rightarrow> Inl err
            | Inr p \<Rightarrow> Inr (path_string p)))"

text \<open>
  A host for the scenario of the spec: one git workspace \<^verbatim>\<open>/repo\<close> whose canonical
  version is the head SHA of the repository of testutil/fs.go, the template at
  \<^verbatim>\<open>/repo/t/foo\<close>, the destination at \<^verbatim>\<open>/repo/out\<close>, a directory \<^verbatim>\<open>/elsewhere\<close>
  outside every workspace and a path that cannot be inspected. The world has no state of
  its own.
\<close>

definition MinimalGitHeadSHA :: string where
  "MinimalGitHeadSHA = ''5597fc600ead69ad92c81a22b58c9e551cd86b9a''"

definition scenario_vars :: DownloaderVars where
  "scenario_vars = \<lparr>GitTag = [], GitSHA = MinimalGitHeadSHA, GitShortSHA = take 7 MinimalGitHeadSHA\<rparr>"

definition scenario_host :: "unit host" where
  "scenario_host =
     \<lparr>filepath_IsAbs = unix_IsAbs,
      filepath_Join = unix_Join,
      filepath_Rel = unix_Rel,
      filepath_ToSlash = (\<lambda>p. p),
      os_Stat = (\<lambda>p w. if p \<in> {''/repo'', ''/repo/t'', ''/repo/t/foo'', ''/repo/out'', ''/elsewhere''}
                        then Inr \<lparr>IsDir = True\<rparr>
                        else if p = ''/repo/t/foo/spec.yaml'' then Inr \<lparr>IsDir = False\<rparr>
                        else if p = ''/locked/t'' then Inl (ErrText ''permission denied'')
                        else Inl ErrNotExist),
      common_IsStatNotExistErr = errors_Is_NotExist,
      common_CopyRecursive = (\<lambda>s d w. (None, w)),
      gitTemplateVars = (\<lambda>p w. Inr scenario_vars),
      git_Workspace = (\<lambda>p w. if take 1 (split_path p) = [''repo''] then Inr (''/repo'', True)
                             else Inr ([], False)),
      gitCanonicalVersion = (\<lambda>d dirty w. Inr (MinimalGitHeadSHA, True))\<rparr>"

chapter \<open>Properties\<close>

section \<open>The local downloader\<close>

lemma LocTypeLocalGit_nonempty: "LocTypeLocalGit \<noteq> []"
  by (simp add: LocTypeLocalGit_def)

lemma slash_join_Nil: "slash_join p = [] \<Longrightarrow> p = [] \<or> p = [[]]"
  by (induction p rule: slash_join.induct) auto

lemma strip_common_target: "strip_common bs ts = (bs', ts') \<Longrightarrow> set ts' \<subseteq> set ts"
  by (induction bs ts arbitrary: bs' ts' rule: strip_common.induct) (auto split: if_splits)

lemma unix_Rel_nonempty:
  assumes "unix_Rel basepath targpath = Inr out"
  shows "out \<noteq> []"
proof -
  obtain bs ts where sc: "strip_common (split_path basepath) (split_path targpath) = (bs, ts)"
    by (cases "strip_common (split_path basepath) (split_path targpath)")
  from assms sc have out: "out = path_string (replicate (length bs) ''..'' @ ts)"
    by (auto simp: unix_Rel_def Rel_def split: if_splits)
  from strip_common_target [OF sc] have "[] \<notin> set ts"
    by (auto simp: split_path_def)
  then have ne: "replicate (length bs) ''..'' @ ts \<noteq> [[]]"
    by (cases bs; cases ts) auto
  show ?thesis
  proof (cases "replicate (length bs) ''..'' @ ts = []")
    case True
    then show ?thesis
      unfolding out path_string_def by simp
  next
    case False
    with ne slash_join_Nil [of "replicate (length bs) ''..'' @ ts"]
    have "slash_join (replicate (length bs) ''..'' @ ts) \<noteq> []"
      by blast
    with False show ?thesis
      unfolding out path_string_def by simp
  qed
qed

lemma scenario_paths:
  "unix_IsAbs ''out'' = False"
  "unix_IsAbs ''missing'' = False"
  "unix_IsAbs ''t/foo'' = False"
  "unix_IsAbs ''t/foo/spec.yaml'' = False"
  "unix_Join ''/repo'' ''out'' = ''/repo/out''"
  "unix_Join ''/repo'' ''missing'' = ''/repo/missing''"
  "unix_Join ''/repo'' ''t/foo'' = ''/repo/t/foo''"
  "unix_Join ''/repo'' ''t/foo/spec.yaml'' = ''/repo/t/foo/spec.yaml''"
  "unix_IsAbs ''/locked/t'' = True"
  "unix_Rel ''/repo/out'' ''/repo/t/foo'' = Inr ''../t/foo''"
  "split_path ''/repo/t/foo'' = [''repo'', ''t'', ''foo'']"
  "split_path ''/repo/out'' = [''repo'', ''out'']"
  "split_path ''/elsewhere'' = [''elsewhere'']"
  by code_simp+

text \<open>
  C9. \<^verbatim>\<open>localSourceParser.sourceParse\<close> answers "not matched" (no downloader, false, no
  error) when the absolutized source path does not exist or exists but is not a directory;
  it returns an error exactly when \<^verbatim>\<open>Stat\<close> fails for another reason; and for an
  existing directory it returns a \<^verbatim>\<open>LocalDownloader\<close> holding the absolutized path.
\<close>

theorem C9_sourceParse_not_matched:
  fixes h :: "'w host"
  defines "absSource params \<equiv> (if filepath_IsAbs h (Source params) then Source params
                                 else filepath_Join h (CWD params) (Source params))"
  shows "(\<forall>err. os_Stat h (absSource params) w = Inl err \<and> common_IsStatNotExistErr h err
            \<longrightarrow> sourceParse h params w = (None, False, None))
       \<and> (\<forall>fi. os_Stat h (absSource params) w = Inr fi \<and> \<not> IsDir fi
            \<longrightarrow> sourceParse h params w = (None, False, None))
       \<and> (\<forall>err. os_Stat h (absSource params) w = Inl err \<and> \<not> common_IsStatNotExistErr h err
            \<longrightarrow> sourceParse h params w = (None, False, Some (Wrapped ''Stat(): '' err)))
       \<and> (snd (snd (sourceParse h params w)) \<noteq> None
            \<longleftrightarrow> (\<exists>err. os_Stat h (absSource params) w = Inl err \<and> \<not> common_IsStatNotExistErr h err))
       \<and> (\<forall>fi. os_Stat h (absSource params) w = Inr fi \<and> IsDir fi
            \<longrightarrow> sourceParse h params w
                = (Some \<lparr>SrcPath = absSource params, allowDirty = False\<rparr>, True, None))"
  unfolding absSource_def sourceParse_def Let_def
  by (auto split: sum.splits)

theorem C9_sourceParse_not_matched_witness:
  "sourceParse scenario_host \<lparr>CWD = ''/repo'', Source = ''missing''\<rparr> () = (None, False, None)
   \<and> sourceParse scenario_host \<lparr>CWD = ''/repo'', Source = ''t/foo/spec.yaml''\<rparr> () = (None, False, None)
   \<and> sourceParse scenario_host \<lparr>CWD = ''/repo'', Source = ''/locked/t''\<rparr> ()
       = (None, False, Some (Wrapped ''Stat(): '' (ErrText ''permission denied'')))
   \<and> sourceParse scenario_host \<lparr>CWD = ''/repo'', Source = ''t/foo''\<rparr> ()
       = (Some \<lparr>SrcPath = ''/repo/t/foo'', allowDirty = False\<rparr>, True, None)"
proof -
  have a: "os_Stat scenario_host ''/repo/missing'' () = Inl ErrNotExist"
    by (simp add: scenario_host_def)
  have b: "os_Stat scenario_host ''/repo/t/foo/spec.yaml'' () = Inr \<lparr>IsDir = False\<rparr>"
    by (simp add: scenario_host_def)
  have c: "os_Stat scenario_host ''/locked/t'' () = Inl (ErrText ''permission denied'')"
    by (simp add: scenario_host_def)
  have d: "os_Stat scenario_host ''/repo/t/foo'' () = Inr \<lparr>IsDir = True\<rparr>"
    by (simp add: scenario_host_def)
  have j: "filepath_Join scenario_host = unix_Join"
    "filepath_IsAbs scenario_host = unix_IsAbs"
    "common_IsStatNotExistErr scenario_host = errors_Is_NotExist"
    by (simp_all add: scenario_host_def)
  show ?thesis
    using C9_sourceParse_not_matched [of scenario_host "\<lparr>CWD = ''/repo'', Source = ''missing''\<rparr>" "()"]
      C9_sourceParse_not_matched [of scenario_host "\<lparr>CWD = ''/repo'', Source = ''t/foo/spec.yaml''\<rparr>" "()"]
      C9_sourceParse_not_matched [of scenario_host "\<lparr>CWD = ''/repo'', Source = ''/locked/t''\<rparr>" "()"]
      C9_sourceParse_not_matched [of scenario_host "\<lparr>CWD = ''/repo'', Source = ''t/foo''\<rparr>" "()"]
    by (simp add: j scenario_paths a b c d)
qed

lemma canonicalize_cases:
  assumes "canonicalize h cwd src dest dirty w = Inr (cs, v, lt)"
  shows "(cs = [] \<and> v = [] \<and> lt = []) \<or> (lt = LocTypeLocalGit)"
  using assms unfolding canonicalize_def Let_def
  by (auto split: sum.splits prod.splits if_splits)

lemma Download_Inr:
  assumes "Download h l cwd dest w = (Inr m, w')"
  shows "\<exists>gv cs v lt.
           common_CopyRecursive h (SrcPath l) dest w = (None, w')
         \<and> gitTemplateVars h (SrcPath l) w' = Inr gv
         \<and> canonicalize h cwd (SrcPath l) dest (allowDirty l) w' = Inr (cs, v, lt)
         \<and> m = \<lparr>IsCanonical = (cs \<noteq> []), CanonicalSource = cs, LocationType = lt,
                 HasVersion = (v \<noteq> []), Version = v, Vars = gv\<rparr>"
  using assms unfolding Download_def
  by (auto split: sum.splits prod.splits option.splits)

text \<open>
  C1. Whenever \<^verbatim>\<open>LocalDownloader.Download\<close> returns metadata: if the template
  directory and the absolutized destination directory are both in a git workspace, and
  it is the same one, the metadata is canonical, its location type is
  \<^verbatim>\<open>local_git\<close>, its canonical source is the slash form of the relative path from the
  destination to the template, and its version is the canonical version of that
  workspace; otherwise canonical source, version and location type are all empty.
  \<^verbatim>\<open>filepath.Rel\<close> gives \<^verbatim>\<open>.\<close> and never the empty path; that fact of the Go
  library is the last assumption.
\<close>

theorem C1_Download_canonical:
  fixes h :: "'w host" and cwd dest :: string
  defines "absDest \<equiv> (if filepath_IsAbs h dest then dest else filepath_Join h cwd dest)"
  assumes ret: "Download h l cwd dest w = (Inr m, w')"
    and src: "git_Workspace h (SrcPath l) w' = Inr (srcWorkspace, srcIsGit)"
    and dst: "git_Workspace h absDest w' = Inr (destWorkspace, destIsGit)"
    and rel: "\<forall>out. filepath_Rel h absDest (SrcPath l) = Inr out \<longrightarrow> filepath_ToSlash h out \<noteq> []"
  shows "(srcIsGit \<and> destIsGit \<and> srcWorkspace = destWorkspace \<longrightarrow>
            IsCanonical m \<and> LocationType m = LocTypeLocalGit
          \<and> (\<exists>out. filepath_Rel h absDest (SrcPath l) = Inr out
                   \<and> CanonicalSource m = filepath_ToSlash h out)
          \<and> (\<exists>ok. gitCanonicalVersion h srcWorkspace (allowDirty l) w' = Inr (Version m, ok)))
       \<and> (\<not> (srcIsGit \<and> destIsGit \<and> srcWorkspace = destWorkspace) \<longrightarrow>
            CanonicalSource m = [] \<and> Version m = [] \<and> LocationType m = [])"
proof -
  from Download_Inr [OF ret] obtain gv cs v lt where
    can: "canonicalize h cwd (SrcPath l) dest (allowDirty l) w' = Inr (cs, v, lt)" and
    m: "m = \<lparr>IsCanonical = (cs \<noteq> []), CanonicalSource = cs, LocationType = lt,
             HasVersion = (v \<noteq> []), Version = v, Vars = gv\<rparr>"
    by blast
  show ?thesis
    using can src dst rel unfolding m canonicalize_def Let_def absDest_def
    by (auto split: sum.splits prod.splits if_splits)
qed

text \<open>
  C2. For all metadata returned by \<^verbatim>\<open>LocalDownloader.Download\<close>, \<^verbatim>\<open>IsCanonical\<close>
  holds if and only if \<^verbatim>\<open>CanonicalSource\<close> and \<^verbatim>\<open>LocationType\<close> are both
  non-empty, and \<^verbatim>\<open>HasVersion\<close> holds if and only if \<^verbatim>\<open>Version\<close> is non-empty.
\<close>

theorem C2_metadata_invariant:
  assumes "Download h l cwd dest w = (Inr m, w')"
  shows "(IsCanonical m \<longleftrightarrow> CanonicalSource m \<noteq> [] \<and> LocationType m \<noteq> [])
       \<and> (HasVersion m \<longleftrightarrow> Version m \<noteq> [])"
proof -
  from Download_Inr [OF assms] obtain gv cs v lt where
    can: "canonicalize h cwd (SrcPath l) dest (allowDirty l) w' = Inr (cs, v, lt)" and
    m: "m = \<lparr>IsCanonical = (cs \<noteq> []), CanonicalSource = cs, LocationType = lt,
             HasVersion = (v \<noteq> []), Version = v, Vars = gv\<rparr>"
    by blast
  from canonicalize_cases [OF can] show ?thesis
    unfolding m by (auto simp: LocTypeLocalGit_nonempty)
qed

lemma scenario_Download_same:
  "Download scenario_host \<lparr>SrcPath = ''/repo/t/foo'', allowDirty = False\<rparr> ''/repo'' ''out'' ()
     = (Inr \<lparr>IsCanonical = True, CanonicalSource = ''../t/foo'', LocationType = ''local_git'',
             HasVersion = True, Version = MinimalGitHeadSHA, Vars = scenario_vars\<rparr>, ())"
  by (simp add: Download_def canonicalize_def scenario_host_def scenario_paths LocTypeLocalGit_def
      MinimalGitHeadSHA_def)

lemma scenario_Download_other:
  "Download scenario_host \<lparr>SrcPath = ''/elsewhere'', allowDirty = False\<rparr> ''/repo'' ''out'' ()
     = (Inr \<lparr>IsCanonical = False, CanonicalSource = [], LocationType = [],
             HasVersion = False, Version = [], Vars = scenario_vars\<rparr>, ())"
  by (simp add: Download_def canonicalize_def scenario_host_def scenario_paths LocTypeLocalGit_def
      MinimalGitHeadSHA_def)

theorem C1_Download_canonical_witness:
  "Download scenario_host \<lparr>SrcPath = ''/repo/t/foo'', allowDirty = False\<rparr> ''/repo'' ''out'' ()
     = (Inr \<lparr>IsCanonical = True, CanonicalSource = ''../t/foo'', LocationType = ''local_git'',
             HasVersion = True, Version = MinimalGitHeadSHA, Vars = scenario_vars\<rparr>, ())
   \<and> IsCanonical \<lparr>IsCanonical = True, CanonicalSource = ''../t/foo'', LocationType = ''local_git'',
             HasVersion = True, Version = MinimalGitHeadSHA, Vars = scenario_vars\<rparr>
   \<and> Download scenario_host \<lparr>SrcPath = ''/elsewhere'', allowDirty = False\<rparr> ''/repo'' ''out'' ()
     = (Inr \<lparr>IsCanonical = False, CanonicalSource = [], LocationType = [],
             HasVersion = False, Version = [], Vars = scenario_vars\<rparr>, ())
   \<and> LocationType \<lparr>IsCanonical = False, CanonicalSource = [], LocationType = [],
             HasVersion = False, Version = [], Vars = scenario_vars\<rparr> = []"
proof -
  have ws: "git_Workspace scenario_host ''/repo/t/foo'' () = Inr (''/repo'', True)"
    "git_Workspace scenario_host ''/elsewhere'' () = Inr ([], False)"
    by (simp_all add: scenario_host_def scenario_paths)
  have wd: "git_Workspace scenario_host
      (if filepath_IsAbs scenario_host ''out'' then ''out'' else filepath_Join scenario_host ''/repo'' ''out'') ()
      = Inr (''/repo'', True)"
    by (simp add: scenario_host_def scenario_paths)
  have rel: "\<forall>out. filepath_Rel scenario_host
      (if filepath_IsAbs scenario_host ''out'' then ''out'' else filepath_Join scenario_host ''/repo'' ''out'')
      (SrcPath \<lparr>SrcPath = ''/repo/t/foo'', allowDirty = False\<rparr>) = Inr out
      \<longrightarrow> filepath_ToSlash scenario_host out \<noteq> []"
    "\<forall>out. filepath_Rel scenario_host
      (if filepath_IsAbs scenario_host ''out'' then ''out'' else filepath_Join scenario_host ''/repo'' ''out'')
      (SrcPath \<lparr>SrcPath = ''/elsewhere'', allowDirty = False\<rparr>) = Inr out
      \<longrightarrow> filepath_ToSlash scenario_host out \<noteq> []"
    by (simp_all add: scenario_host_def unix_Rel_nonempty)
  show ?thesis
    using C1_Download_canonical [OF scenario_Download_same _ wd rel(1), of "''/repo''" True]
      C1_Download_canonical [OF scenario_Download_other _ wd rel(2), of "[]" False]
      scenario_Download_same scenario_Download_other ws
    by simp
qed

theorem C2_metadata_invariant_witness:
  "(IsCanonical \<lparr>IsCanonical = True, CanonicalSource = ''../t/foo'', LocationType = ''local_git'',
             HasVersion = True, Version = MinimalGitHeadSHA, Vars = scenario_vars\<rparr>
    \<longleftrightarrow> ''../t/foo'' \<noteq> [] \<and> ''local_git'' \<noteq> [])
   \<and> (HasVersion \<lparr>IsCanonical = False, CanonicalSource = [], LocationType = [],
             HasVersion = False, Version = [], Vars = scenario_vars\<rparr> \<longleftrightarrow> ([]::string) \<noteq> [])"
  using C2_metadata_invariant [OF scenario_Download_same]
    C2_metadata_invariant [OF scenario_Download_other]
  by simp

section \<open>Validating a golden-test configuration\<close>

lemma reported_opt_Join: "reported_opt (errors_Join errs) = concat (map reported_opt errs)"
proof -
  have "concat (map reported (List.map_filter (\<lambda>e. e) errs)) = concat (map reported_opt errs)"
    by (induction errs) (auto simp: reported_opt_def split: option.splits)
  then show ?thesis
    by (auto simp: errors_Join_def Let_def reported_opt_def)
qed

text \<open>
  C8. Validating an input entry of a golden test collects every violation of its fields:
  when name and value are both empty, the returned error holds both violations, name
  first; in general it reports the violation of each empty field. \<^verbatim>\<open>Test.Validate\<close>
  reports the violations of all its input entries, entry by entry.
\<close>

theorem C8_Validate_collects:
  "(Val (Name i) = [] \<and> Val (Value i) = [] \<longrightarrow>
      VarValue_Validate i = Some (Joined [FieldRequired (VarValue_Pos i) ''name'',
                                          FieldRequired (VarValue_Pos i) ''value'']))
   \<and> reported_opt (VarValue_Validate i)
       = (if Val (Name i) = [] then [FieldRequired (VarValue_Pos i) ''name''] else [])
       @ (if Val (Value i) = [] then [FieldRequired (VarValue_Pos i) ''value''] else [])
   \<and> reported_opt (Test_Validate t) = concat (map (\<lambda>i. reported_opt (VarValue_Validate i)) (Inputs t))"
proof (intro conjI)
  show "Val (Name i) = [] \<and> Val (Value i) = [] \<longrightarrow>
      VarValue_Validate i = Some (Joined [FieldRequired (VarValue_Pos i) ''name'',
                                          FieldRequired (VarValue_Pos i) ''value''])"
    by (simp add: VarValue_Validate_def errors_Join_def NotZeroModel_def)
  show "reported_opt (VarValue_Validate i)
       = (if Val (Name i) = [] then [FieldRequired (VarValue_Pos i) ''name''] else [])
       @ (if Val (Value i) = [] then [FieldRequired (VarValue_Pos i) ''value''] else [])"
    by (simp add: VarValue_Validate_def reported_opt_Join) (simp add: NotZeroModel_def reported_opt_def)
  show "reported_opt (Test_Validate t) = concat (map (\<lambda>i. reported_opt (VarValue_Validate i)) (Inputs t))"
    by (simp add: Test_Validate_def ValidateEach_def reported_opt_Join comp_def)
qed

theorem C8_Validate_collects_witness:
  "VarValue_Validate \<lparr>VarValue_Pos = pos1, Name = \<lparr>Pos = pos1, Val = []\<rparr>, Value = \<lparr>Pos = pos1, Val = []\<rparr>\<rparr>
     = Some (Joined [FieldRequired pos1 ''name'', FieldRequired pos1 ''value''])
   \<and> reported_opt (Test_Validate \<lparr>Test_Pos = pos1, Inputs =
        [\<lparr>VarValue_Pos = pos1, Name = \<lparr>Pos = pos1, Val = []\<rparr>, Value = \<lparr>Pos = pos1, Val = []\<rparr>\<rparr>,
         \<lparr>VarValue_Pos = pos2, Name = \<lparr>Pos = pos2, Val = ''pizza''\<rparr>, Value = \<lparr>Pos = pos2, Val = []\<rparr>\<rparr>]\<rparr>)
     = [FieldRequired pos1 ''name'', FieldRequired pos1 ''value'', FieldRequired pos2 ''value'']"
  using C8_Validate_collects [of "\<lparr>VarValue_Pos = pos1, Name = \<lparr>Pos = pos1, Val = []\<rparr>, Value = \<lparr>Pos = pos1, Val = []\<rparr>\<rparr>"
      "\<lparr>Test_Pos = pos1, Inputs =
        [\<lparr>VarValue_Pos = pos1, Name = \<lparr>Pos = pos1, Val = []\<rparr>, Value = \<lparr>Pos = pos1, Val = []\<rparr>\<rparr>,
         \<lparr>VarValue_Pos = pos2, Name = \<lparr>Pos = pos2, Val = ''pizza''\<rparr>, Value = \<lparr>Pos = pos2, Val = []\<rparr>\<rparr>]\<rparr>"]
    C8_Validate_collects [of "\<lparr>VarValue_Pos = pos2, Name = \<lparr>Pos = pos2, Val = ''pizza''\<rparr>, Value = \<lparr>Pos = pos2, Val = []\<rparr>\<rparr>"
      "\<lparr>Test_Pos = pos1, Inputs = []\<rparr>"]
  by (simp add: reported_opt_def)

section \<open>Golden-test verification\<close>

subsection \<open>Paths\<close>

lemma strip_common_append: "strip_common base (base @ rel) = ([], rel)"
  by (induction base) auto

lemma Rel_under: "Rel base (base @ rel) = Inr rel"
  by (simp add: Rel_def strip_common_append)

lemma lookup_append:
  "lookup n (p @ q) = (case lookup n p of Inl e \<Rightarrow> Inl e | Inr d \<Rightarrow> lookup d q)"
proof (induction n p rule: lookup.induct)
  case (1 n)
  show ?case by simp
next
  case (2 c x xs)
  show ?case by simp
next
  case (3 es x xs)
  then show ?case by (simp split: option.splits)
qed

lemma IsReservedInDest_append: "IsReservedInDest rel \<Longrightarrow> IsReservedInDest (rel @ q)"
  by (cases rel) (auto simp: IsReservedInDest_def)

subsection \<open>The walk of addTestFiles\<close>

lemma add_all_simps [simp]:
  "add_all fileSet [] = fileSet"
  "add_all fileSet (p # ps) = add_all (List.insert p fileSet) ps"
  "add_all fileSet (ps @ qs) = add_all (add_all fileSet ps) qs"
  by (simp_all add: add_all_def)

lemma set_add_all: "set (add_all fileSet ps) = set fileSet \<union> set ps"
  by (induction ps arbitrary: fileSet) auto

lemma distinct_add_all: "distinct fileSet \<Longrightarrow> distinct (add_all fileSet ps)"
  by (induction ps arbitrary: fileSet) auto

lemma filter_reserved_under:
  "IsReservedInDest rel \<Longrightarrow> filter (\<lambda>p. \<not> IsReservedInDest p) (map (\<lambda>q. rel @ q) ps) = []"
  by (induction ps) (auto simp: IsReservedInDest_append)

lemma walk_collects:
  "walkDir (addTestFiles_visit dir) (dir @ rel) d fileSet
     = (Continue, add_all fileSet (filter (\<lambda>p. \<not> IsReservedInDest p) (map (\<lambda>q. rel @ q) (all_files d))))"
  "walkEntries (addTestFiles_visit dir) (dir @ rel) es fileSet
     = (Continue, add_all fileSet (filter (\<lambda>p. \<not> IsReservedInDest p) (map (\<lambda>q. rel @ q) (all_files_entries es))))"
proof (induction d and es arbitrary: rel fileSet and rel fileSet rule: all_files_all_files_entries.induct)
  case (1 c)
  show ?case
    by (simp add: addTestFiles_visit_def Rel_under)
next
  case (2 es)
  show ?case
  proof (cases "IsReservedInDest rel")
    case True
    then show ?thesis
      by (simp add: addTestFiles_visit_def Rel_under filter_reserved_under)
  next
    case False
    then show ?thesis
      using 2 [of rel fileSet] by (simp add: addTestFiles_visit_def Rel_under)
  qed
next
  case 3
  show ?case by simp
next
  case (4 n1 d1 rest)
  have "walkDir (addTestFiles_visit dir) ((dir @ rel) @ [n1]) d1 fileSet
      = (Continue, add_all fileSet (filter (\<lambda>p. \<not> IsReservedInDest p) (map (\<lambda>q. (rel @ [n1]) @ q) (all_files d1))))"
    using 4(1) [of "rel @ [n1]" fileSet] by simp
  then show ?case
    using 4(2) [of rel] by (simp add: comp_def)
qed

lemma addTestFiles_found:
  assumes "lookup fsys dir = Inr d"
  shows "addTestFiles fsys fileSet dir = (None, add_all fileSet (comparable_files d))"
  using assms walk_collects(1) [of dir "[]" d fileSet]
  by (simp add: addTestFiles_def WalkDir_def comparable_files_def)

lemma addTestFiles_missing:
  assumes "lookup fsys dir = Inl e"
  shows "fst (addTestFiles fsys fileSet dir) \<noteq> None"
  using assms by (simp add: addTestFiles_def WalkDir_def addTestFiles_visit_def)

lemma collectRelPaths_found:
  assumes "lookup fsys goldenDataDir = Inr g" and "lookup fsys tempDataDir = Inr t"
  shows "collectRelPaths fsys goldenDataDir tempDataDir
           = Inr (sort_key path_string (add_all (add_all [] (comparable_files g)) (comparable_files t)))"
  using assms by (simp add: collectRelPaths_def addTestFiles_found)

subsection \<open>The loop over relPaths\<close>

lemma reported_opt_simps [simp]:
  "reported_opt None = []"
  "reported_opt (Some e) = reported e"
  by (simp_all add: reported_opt_def)

lemma reported_opt_Join2:
  "reported_opt (errors_Join [tcErr, Some (ErrText m)]) = reported_opt tcErr @ [ErrText m]"
  by (simp add: reported_opt_Join)

lemma errors_Join_Some [simp]: "errors_Join [e, Some x] \<noteq> None"
  by (cases e) (simp_all add: errors_Join_def)

lemma compareFiles_Inr:
  assumes "compareFiles fsys sprintf red dmp g t ps (tcErr, mm) = Inr (tcErr', mm')"
  shows "reported_opt tcErr' = reported_opt tcErr @ concat (map (findings fsys sprintf red dmp g t) ps)
       \<and> (mm' \<longleftrightarrow> mm \<or> list_ex (flags_mismatch fsys dmp g t) ps)
       \<and> \<not> list_ex (read_fails fsys g t) ps
       \<and> (tcErr' = None \<longleftrightarrow> tcErr = None \<and> concat (map (findings fsys sprintf red dmp g t) ps) = [])"
  using assms
proof (induction ps arbitrary: tcErr mm)
  case Nil
  then show ?case by simp
next
  case (Cons p ps)
  show ?case
  proof (cases "os_ReadFile fsys (Join g p)")
    case (Inl err)
    with Cons.prems have ne: "errors_Is_NotExist err"
      and rest: "compareFiles fsys sprintf red dmp g t ps
                  (errors_Join [tcErr, Some (notRecorded sprintf red (Join g p))], True) = Inr (tcErr', mm')"
      by (auto simp: Let_def split: if_splits)
    from Cons.IH [OF rest] Inl ne show ?thesis
      by (simp add: findings_def flags_mismatch_def read_fails_def notRecorded_def reported_opt_Join2)
  next
    case (Inr gc)
    note g = Inr
    show ?thesis
    proof (cases "os_ReadFile fsys (Join t p)")
      case (Inl err)
      with g Cons.prems have ne: "errors_Is_NotExist err"
        and rest: "compareFiles fsys sprintf red dmp g t ps
                  (errors_Join [tcErr, Some (expectedMissing sprintf red (Join g p))], mm) = Inr (tcErr', mm')"
        by (auto simp: Let_def split: if_splits)
      from Cons.IH [OF rest] Inl g ne show ?thesis
        by (simp add: findings_def flags_mismatch_def read_fails_def expectedMissing_def reported_opt_Join2)
    next
      case (Inr tc)
      show ?thesis
      proof (cases "hasDiff (DiffMain dmp tc gc)")
        case True
        with g Inr Cons.prems have rest: "compareFiles fsys sprintf red dmp g t ps
                  (errors_Join [tcErr, Some (contentMismatch red dmp (Join g p) (DiffMain dmp tc gc))], True)
                   = Inr (tcErr', mm')"
          by (auto simp: Let_def)
        from Cons.IH [OF rest] Inr g True show ?thesis
          by (simp add: findings_def flags_mismatch_def read_fails_def contentMismatch_def reported_opt_Join2)
      next
        case False
        with g Inr Cons.prems have rest: "compareFiles fsys sprintf red dmp g t ps (tcErr, mm) = Inr (tcErr', mm')"
          by (auto simp: Let_def)
        from Cons.IH [OF rest] Inr g False show ?thesis
          by (simp add: findings_def flags_mismatch_def read_fails_def)
      qed
    qed
  qed
qed

lemma compareFiles_returns:
  assumes "\<not> list_ex (read_fails fsys g t) ps"
  shows "\<exists>r. compareFiles fsys sprintf red dmp g t ps (tcErr, mm) = Inr r"
  using assms
proof (induction ps arbitrary: tcErr mm)
  case Nil
  show ?case by simp
next
  case (Cons p ps)
  then show ?case
    by (auto simp: Let_def read_fails_def split: sum.splits)
qed

lemma compareFiles_step:
  assumes "\<not> read_fails fsys g t p"
  shows "\<exists>acc. compareFiles fsys sprintf red dmp g t (p # ps) (tcErr, mm)
                 = compareFiles fsys sprintf red dmp g t ps acc"
  using assms by (auto simp: Let_def read_fails_def split: sum.splits)

lemma compareFiles_abort:
  assumes "\<not> list_ex (read_fails fsys g t) ps" and "read_error fsys g t p = Some err"
  shows "compareFiles fsys sprintf red dmp g t (ps @ p # qs) (tcErr, mm) = Inl err"
  using assms(1)
proof (induction ps arbitrary: tcErr mm)
  case Nil
  from assms(2) show ?case
    by (auto simp: Let_def read_error_def split: sum.splits if_splits)
next
  case (Cons a ps)
  from Cons.prems have a: "\<not> read_fails fsys g t a" and ps: "\<not> list_ex (read_fails fsys g t) ps"
    by simp_all
  from compareFiles_step [OF a] obtain acc where
    "compareFiles fsys sprintf red dmp g t (a # (ps @ p # qs)) (tcErr, mm)
       = compareFiles fsys sprintf red dmp g t (ps @ p # qs) acc"
    by blast
  with Cons.IH [OF ps, of "fst acc" "snd acc"] show ?case by simp
qed

lemma read_fails_read_error: "read_fails fsys g t p \<longleftrightarrow> read_error fsys g t p \<noteq> None"
  by (simp add: read_fails_def read_error_def split: sum.splits)

lemma lookup_errors: "lookup n p = Inl e \<Longrightarrow> e = ErrNotExist \<or> e = ErrNotDir"
proof (induction n p rule: lookup.induct)
  case (1 n)
  then show ?case by simp
next
  case (2 c x xs)
  then show ?case by simp
next
  case (3 es x xs)
  then show ?case by (simp split: option.splits)
qed

lemma os_ReadFile_under:
  assumes "lookup fsys dir = Inr d"
  shows "os_ReadFile fsys (Join dir p) = os_ReadFile d p"
  using assms by (simp add: os_ReadFile_def Join_def lookup_append)

lemma flags_mismatch_findings:
  "flags_mismatch fsys dmp g t p \<Longrightarrow> findings fsys sprintf red dmp g t p \<noteq> []"
  by (auto simp: flags_mismatch_def findings_def split: sum.splits)

lemma getStdoutDiff_Inr:
  assumes "\<not> genuine_read_error (os_ReadFile fsys gp)" and "\<not> genuine_read_error (os_ReadFile fsys tp)"
  shows "getStdoutDiff fsys gp tp dmp
           = Inr (DiffMain dmp (stdout_content (os_ReadFile fsys tp)) (stdout_content (os_ReadFile fsys gp)))"
  using assms
  by (auto simp: getStdoutDiff_def genuine_read_error_def stdout_content_def split: sum.splits)

lemma getStdoutDiff_Inl:
  "(\<exists>err. getStdoutDiff fsys gp tp dmp = Inl err)
     \<longleftrightarrow> genuine_read_error (os_ReadFile fsys gp) \<or> genuine_read_error (os_ReadFile fsys tp)"
  by (auto simp: getStdoutDiff_def genuine_read_error_def split: sum.splits)

text \<open>
  C10. \<^verbatim>\<open>getStdoutDiff\<close> fails exactly when reading one of the two stdout files fails
  with an error other than "not exist"; otherwise it diffs the two contents, a missing file
  counting as empty. With a diff library that finds no difference between equal texts, the
  result has no difference when both files are absent and when both hold the same text,
  and then a test case whose files all agree succeeds.
\<close>

theorem C10_getStdoutDiff:
  fixes location tempDir :: path and testName :: string
  defines "goldenDataDir \<equiv> Join location (Join goldenTestDir [testName, testDataDir])"
      and "tempDataDir \<equiv> Join tempDir (Join goldenTestDir [testName, testDataDir])"
  assumes same: "\<forall>s. \<not> hasDiff (DiffMain dmp s s)"
  shows "((\<exists>err. getStdoutDiff fsys gp tp dmp = Inl err)
            \<longleftrightarrow> genuine_read_error (os_ReadFile fsys gp) \<or> genuine_read_error (os_ReadFile fsys tp))
       \<and> (\<not> genuine_read_error (os_ReadFile fsys gp) \<and> \<not> genuine_read_error (os_ReadFile fsys tp) \<longrightarrow>
            getStdoutDiff fsys gp tp dmp
              = Inr (DiffMain dmp (stdout_content (os_ReadFile fsys tp)) (stdout_content (os_ReadFile fsys gp))))
       \<and> (\<forall>e1 e2. os_ReadFile fsys gp = Inl e1 \<and> errors_Is_NotExist e1
                 \<and> os_ReadFile fsys tp = Inl e2 \<and> errors_Is_NotExist e2 \<longrightarrow>
            (\<exists>diffs. getStdoutDiff fsys gp tp dmp = Inr diffs \<and> \<not> hasDiff diffs))
       \<and> (\<forall>text. os_ReadFile fsys gp = Inr text \<and> os_ReadFile fsys tp = Inr text \<longrightarrow>
            (\<exists>diffs. getStdoutDiff fsys gp tp dmp = Inr diffs \<and> \<not> hasDiff diffs))
       \<and> (\<forall>relPaths diffs.
             collectRelPaths fsys goldenDataDir tempDataDir = Inr relPaths
           \<and> compareFiles fsys sprintf red dmp goldenDataDir tempDataDir relPaths (None, False) = Inr (None, False)
           \<and> getStdoutDiff fsys (Join goldenDataDir [ABCInternalDir, ABCInternalStdout])
                            (Join tempDataDir [ABCInternalDir, ABCInternalStdout]) dmp = Inr diffs
           \<and> \<not> hasDiff diffs \<longrightarrow>
             verifyTestCase fsys sprintf red dmp location tempDir testName = Inr None)"
proof (intro conjI)
  show "(\<exists>err. getStdoutDiff fsys gp tp dmp = Inl err)
            \<longleftrightarrow> genuine_read_error (os_ReadFile fsys gp) \<or> genuine_read_error (os_ReadFile fsys tp)"
    by (rule getStdoutDiff_Inl)
  show "\<not> genuine_read_error (os_ReadFile fsys gp) \<and> \<not> genuine_read_error (os_ReadFile fsys tp) \<longrightarrow>
            getStdoutDiff fsys gp tp dmp
              = Inr (DiffMain dmp (stdout_content (os_ReadFile fsys tp)) (stdout_content (os_ReadFile fsys gp)))"
    by (simp add: getStdoutDiff_Inr)
  show "\<forall>e1 e2. os_ReadFile fsys gp = Inl e1 \<and> errors_Is_NotExist e1
                 \<and> os_ReadFile fsys tp = Inl e2 \<and> errors_Is_NotExist e2 \<longrightarrow>
            (\<exists>diffs. getStdoutDiff fsys gp tp dmp = Inr diffs \<and> \<not> hasDiff diffs)"
    using same by (simp add: getStdoutDiff_def)
  show "\<forall>text. os_ReadFile fsys gp = Inr text \<and> os_ReadFile fsys tp = Inr text \<longrightarrow>
            (\<exists>diffs. getStdoutDiff fsys gp tp dmp = Inr diffs \<and> \<not> hasDiff diffs)"
    using same by (simp add: getStdoutDiff_def)
  show "\<forall>relPaths diffs.
             collectRelPaths fsys goldenDataDir tempDataDir = Inr relPaths
           \<and> compareFiles fsys sprintf red dmp goldenDataDir tempDataDir relPaths (None, False) = Inr (None, False)
           \<and> getStdoutDiff fsys (Join goldenDataDir [ABCInternalDir, ABCInternalStdout])
                            (Join tempDataDir [ABCInternalDir, ABCInternalStdout]) dmp = Inr diffs
           \<and> \<not> hasDiff diffs \<longrightarrow>
             verifyTestCase fsys sprintf red dmp location tempDir testName = Inr None"
    unfolding goldenDataDir_def tempDataDir_def
    by (simp add: verifyTestCase_def Let_def)
qed

subsection \<open>One test case, from the walk to the verdict\<close>

lemma reported_failures [simp]:
  "reported (notRecorded sprintf red f) = [notRecorded sprintf red f]"
  "reported (expectedMissing sprintf red f) = [expectedMissing sprintf red f]"
  "reported (contentMismatch red dmp f diffs) = [contentMismatch red dmp f diffs]"
  "reported (printedDiffer red dmp diffs) = [printedDiffer red dmp diffs]"
  "reported (didNotMatch sprintf red testName) = [didNotMatch sprintf red testName]"
  by (simp_all add: notRecorded_def expectedMissing_def contentMismatch_def printedDiffer_def
      didNotMatch_def)

lemma collectRelPaths_missing:
  assumes "(\<exists>e. lookup fsys goldenDataDir = Inl e) \<or> (\<exists>e. lookup fsys tempDataDir = Inl e)"
  shows "\<exists>err. collectRelPaths fsys goldenDataDir tempDataDir = Inl err"
proof (cases "lookup fsys goldenDataDir")
  case (Inl e)
  from addTestFiles_missing [OF Inl, of "[]"] show ?thesis
    by (auto simp: collectRelPaths_def split: prod.splits option.splits)
next
  case (Inr g)
  with assms obtain e where t: "lookup fsys tempDataDir = Inl e"
    by auto
  from addTestFiles_missing [OF t, of "add_all [] (comparable_files g)"] show ?thesis
    by (auto simp: collectRelPaths_def addTestFiles_found [OF Inr] split: prod.splits option.splits)
qed

lemma verifyTestCase_missing:
  fixes location tempDir :: path and testName :: string
  defines "goldenDataDir \<equiv> Join location (Join goldenTestDir [testName, testDataDir])"
      and "tempDataDir \<equiv> Join tempDir (Join goldenTestDir [testName, testDataDir])"
  assumes "(\<exists>e. lookup fsys goldenDataDir = Inl e) \<or> (\<exists>e. lookup fsys tempDataDir = Inl e)"
  shows "\<exists>err. collectRelPaths fsys goldenDataDir tempDataDir = Inl err
             \<and> verifyTestCase fsys sprintf red dmp location tempDir testName = Inl err"
proof -
  from collectRelPaths_missing [OF assms(3)] obtain err where
    err: "collectRelPaths fsys goldenDataDir tempDataDir = Inl err"
    by blast
  then have "verifyTestCase fsys sprintf red dmp location tempDir testName = Inl err"
    unfolding goldenDataDir_def tempDataDir_def by (simp add: verifyTestCase_def Let_def)
  with err show ?thesis by blast
qed

lemma verifyTestCase_abort:
  fixes location tempDir :: path and testName :: string
  defines "goldenDataDir \<equiv> Join location (Join goldenTestDir [testName, testDataDir])"
      and "tempDataDir \<equiv> Join tempDir (Join goldenTestDir [testName, testDataDir])"
  assumes rel: "collectRelPaths fsys goldenDataDir tempDataDir = Inr (ps @ p # qs)"
      and ps: "\<not> list_ex (read_fails fsys goldenDataDir tempDataDir) ps"
      and p: "read_error fsys goldenDataDir tempDataDir p = Some err"
  shows "verifyTestCase fsys sprintf red dmp location tempDir testName = Inl err"
  using rel compareFiles_abort [OF ps p, of sprintf red dmp qs None False]
  unfolding goldenDataDir_def tempDataDir_def
  by (simp add: verifyTestCase_def Let_def)

lemma verifyTestCase_stdout_error:
  fixes location tempDir :: path and testName :: string
  defines "goldenDataDir \<equiv> Join location (Join goldenTestDir [testName, testDataDir])"
      and "tempDataDir \<equiv> Join tempDir (Join goldenTestDir [testName, testDataDir])"
  assumes rel: "collectRelPaths fsys goldenDataDir tempDataDir = Inr relPaths"
      and ok: "\<not> list_ex (read_fails fsys goldenDataDir tempDataDir) relPaths"
      and bad: "genuine_read_error (os_ReadFile fsys (Join goldenDataDir [ABCInternalDir, ABCInternalStdout]))
              \<or> genuine_read_error (os_ReadFile fsys (Join tempDataDir [ABCInternalDir, ABCInternalStdout]))"
  shows "\<exists>err. verifyTestCase fsys sprintf red dmp location tempDir testName
                 = Inl (Wrapped ''failed to compare stdout:'' err)"
proof -
  from compareFiles_returns [OF ok] obtain tcErr mm where
    cmp: "compareFiles fsys sprintf red dmp goldenDataDir tempDataDir relPaths (None, False) = Inr (tcErr, mm)"
    by fastforce
  from bad obtain err where
    sd: "getStdoutDiff fsys (Join goldenDataDir [ABCInternalDir, ABCInternalStdout])
           (Join tempDataDir [ABCInternalDir, ABCInternalStdout]) dmp = Inl err"
    using getStdoutDiff_Inl by blast
  from rel cmp sd have "verifyTestCase fsys sprintf red dmp location tempDir testName
                 = Inl (Wrapped ''failed to compare stdout:'' err)"
    unfolding goldenDataDir_def tempDataDir_def by (simp add: verifyTestCase_def Let_def)
  then show ?thesis by (rule exI)
qed

lemma verifyTestCase_verdict:
  fixes location tempDir :: path and testName :: string and fsys :: node and dmp :: DiffMatchPatch
  defines "goldenDataDir \<equiv> Join location (Join goldenTestDir [testName, testDataDir])"
      and "tempDataDir \<equiv> Join tempDir (Join goldenTestDir [testName, testDataDir])"
  defines "stdoutDiff \<equiv>
             DiffMain dmp
               (stdout_content (os_ReadFile fsys (Join tempDataDir [ABCInternalDir, ABCInternalStdout])))
               (stdout_content (os_ReadFile fsys (Join goldenDataDir [ABCInternalDir, ABCInternalStdout])))"
  assumes rel: "collectRelPaths fsys goldenDataDir tempDataDir = Inr relPaths"
      and ok: "\<not> list_ex (read_fails fsys goldenDataDir tempDataDir) relPaths"
      and okg: "\<not> genuine_read_error (os_ReadFile fsys (Join goldenDataDir [ABCInternalDir, ABCInternalStdout]))"
      and okt: "\<not> genuine_read_error (os_ReadFile fsys (Join tempDataDir [ABCInternalDir, ABCInternalStdout]))"
  shows "\<exists>r. verifyTestCase fsys sprintf red dmp location tempDir testName = Inr r
           \<and> reported_opt r
               = concat (map (findings fsys sprintf red dmp goldenDataDir tempDataDir) relPaths)
                 @ (if hasDiff stdoutDiff then [printedDiffer red dmp stdoutDiff] else [])
                 @ (if list_ex (flags_mismatch fsys dmp goldenDataDir tempDataDir) relPaths \<or> hasDiff stdoutDiff
                    then [didNotMatch sprintf red testName] else [])
           \<and> (r = None \<longleftrightarrow>
                 concat (map (findings fsys sprintf red dmp goldenDataDir tempDataDir) relPaths) = []
                 \<and> \<not> hasDiff stdoutDiff)"
proof -
  from compareFiles_returns [OF ok] obtain tcErr mm where
    cmp: "compareFiles fsys sprintf red dmp goldenDataDir tempDataDir relPaths (None, False) = Inr (tcErr, mm)"
    by fastforce
  from compareFiles_Inr [OF cmp] have
    rep: "reported_opt tcErr = concat (map (findings fsys sprintf red dmp goldenDataDir tempDataDir) relPaths)" and
    mm: "mm \<longleftrightarrow> list_ex (flags_mismatch fsys dmp goldenDataDir tempDataDir) relPaths" and
    tnone: "tcErr = None \<longleftrightarrow> concat (map (findings fsys sprintf red dmp goldenDataDir tempDataDir) relPaths) = []"
    by simp_all
  have sd: "getStdoutDiff fsys (Join goldenDataDir [ABCInternalDir, ABCInternalStdout])
              (Join tempDataDir [ABCInternalDir, ABCInternalStdout]) dmp = Inr stdoutDiff"
    unfolding stdoutDiff_def by (rule getStdoutDiff_Inr [OF okg okt])
  define r where
    "r = (if hasDiff stdoutDiff
          then errors_Join [errors_Join [tcErr, Some (printedDiffer red dmp stdoutDiff)],
                            Some (didNotMatch sprintf red testName)]
          else if mm then errors_Join [tcErr, Some (didNotMatch sprintf red testName)] else tcErr)"
  have run: "verifyTestCase fsys sprintf red dmp location tempDir testName = Inr r"
    using rel cmp sd unfolding goldenDataDir_def tempDataDir_def r_def
    by (simp add: verifyTestCase_def Let_def)
  have reports: "reported_opt r
               = concat (map (findings fsys sprintf red dmp goldenDataDir tempDataDir) relPaths)
                 @ (if hasDiff stdoutDiff then [printedDiffer red dmp stdoutDiff] else [])
                 @ (if list_ex (flags_mismatch fsys dmp goldenDataDir tempDataDir) relPaths \<or> hasDiff stdoutDiff
                    then [didNotMatch sprintf red testName] else [])"
    unfolding r_def using rep mm by (simp add: reported_opt_Join)
  have flagged: "concat (map (findings fsys sprintf red dmp goldenDataDir tempDataDir) relPaths) \<noteq> []"
    if "mm"
  proof -
    from that mm obtain p where p: "p \<in> set relPaths"
      and f: "flags_mismatch fsys dmp goldenDataDir tempDataDir p"
      by (auto simp: list_ex_iff)
    from flags_mismatch_findings [OF f, of sprintf red] p show ?thesis
      by auto
  qed
  have none: "r = None \<longleftrightarrow>
                 concat (map (findings fsys sprintf red dmp goldenDataDir tempDataDir) relPaths) = []
                 \<and> \<not> hasDiff stdoutDiff"
    unfolding r_def using tnone flagged by auto
  from run reports none show ?thesis by blast
qed

lemma unreadable_golden:
  assumes g: "lookup fsys goldenDataDir = Inr g"
      and ok: "\<not> read_fails fsys goldenDataDir tempDataDir p"
  shows "(\<exists>c. lookup g p = Inr (File c)) \<or> lookup g p = Inl ErrNotExist"
proof -
  from ok have ok': "\<not> genuine_read_error (os_ReadFile g p)"
    unfolding read_fails_def os_ReadFile_under [OF g] genuine_read_error_def
    by (simp split: sum.splits)
  show ?thesis
  proof (cases "lookup g p")
    case (Inl e)
    with lookup_errors have "e = ErrNotExist \<or> e = ErrNotDir" by blast
    with Inl ok' show ?thesis
      by (auto simp: genuine_read_error_def os_ReadFile_def)
  next
    case (Inr d)
    with ok' show ?thesis
      by (cases d) (auto simp: genuine_read_error_def os_ReadFile_def)
  qed
qed

lemma unreadable_temp:
  assumes g: "lookup fsys goldenDataDir = Inr g" and t: "lookup fsys tempDataDir = Inr t"
      and ok: "\<not> read_fails fsys goldenDataDir tempDataDir p"
      and isfile: "lookup g p = Inr (File c)"
  shows "(\<exists>c. lookup t p = Inr (File c)) \<or> lookup t p = Inl ErrNotExist"
proof -
  from isfile have "os_ReadFile g p = Inr c"
    by (simp add: os_ReadFile_def)
  with ok have ok': "\<not> genuine_read_error (os_ReadFile t p)"
    unfolding read_fails_def os_ReadFile_under [OF g] os_ReadFile_under [OF t] genuine_read_error_def
    by (simp split: sum.splits)
  show ?thesis
  proof (cases "lookup t p")
    case (Inl e)
    with lookup_errors have "e = ErrNotExist \<or> e = ErrNotDir" by blast
    with Inl ok' show ?thesis
      by (auto simp: genuine_read_error_def os_ReadFile_def)
  next
    case (Inr d)
    with ok' show ?thesis
      by (cases d) (auto simp: genuine_read_error_def os_ReadFile_def)
  qed
qed

lemma findings_cases:
  assumes g: "lookup fsys goldenDataDir = Inr g" and t: "lookup fsys tempDataDir = Inr t"
  shows "lookup g p = Inl ErrNotExist \<Longrightarrow>
           findings fsys sprintf red dmp goldenDataDir tempDataDir p
             = [notRecorded sprintf red (Join goldenDataDir p)]"
    and "lookup g p = Inr (File gc) \<Longrightarrow> lookup t p = Inl ErrNotExist \<Longrightarrow>
           findings fsys sprintf red dmp goldenDataDir tempDataDir p
             = [expectedMissing sprintf red (Join goldenDataDir p)]"
    and "lookup g p = Inr (File gc) \<Longrightarrow> lookup t p = Inr (File tc) \<Longrightarrow>
           findings fsys sprintf red dmp goldenDataDir tempDataDir p
             = (if hasDiff (DiffMain dmp tc gc)
                then [contentMismatch red dmp (Join goldenDataDir p) (DiffMain dmp tc gc)] else [])"
  unfolding findings_def os_ReadFile_under [OF g] os_ReadFile_under [OF t]
  by (simp_all add: os_ReadFile_def)

text \<open>
  C7, as amended. A test case whose golden data directory or rendered data directory
  cannot be walked ends \<^verbatim>\<open>Run\<close> with an error. When both exist, the loop of the
  verifier visits exactly the relative paths of the regular files found under one of them,
  except those under the top-level \<^verbatim>\<open>.abc\<close> directory; it visits each path once, in
  sorted order of the path strings. At the first path, in that order, at which a read
  fails with an error other than "not exist", \<^verbatim>\<open>Run\<close> returns that error and reports
  nothing; a path that is a regular file on one side and a directory on the other is such
  a path. When no read fails in this way, the test case gets its verdict: the failures it
  reports are those of the visited paths, in the order of the visit, then the difference
  of the printed output, then the hint to record again. A visited path with nothing at it
  on the golden side is reported as generated but not recorded, one that is a file on the
  golden side with nothing at it on the rendered side is reported as expected but missing,
  and one that is a file on both sides is reported when its contents differ. The recorded
  printed output lies under \<^verbatim>\<open>.abc\<close>, so the loop does not visit it; it is read on
  its own, a missing file counting as empty, and a difference there fails the test case as
  well. The test case succeeds exactly when no visited path has a finding and the printed
  output does not differ.
\<close>

theorem C7_verify_file_comparison:
  fixes location tempDir :: path and testName :: string and fsys :: node and dmp :: DiffMatchPatch
  defines "goldenDataDir \<equiv> Join location (Join goldenTestDir [testName, testDataDir])"
      and "tempDataDir \<equiv> Join tempDir (Join goldenTestDir [testName, testDataDir])"
  defines "stdoutDiff \<equiv>
             DiffMain dmp
               (stdout_content (os_ReadFile fsys (Join tempDataDir [ABCInternalDir, ABCInternalStdout])))
               (stdout_content (os_ReadFile fsys (Join goldenDataDir [ABCInternalDir, ABCInternalStdout])))"
  shows "((\<exists>e. lookup fsys goldenDataDir = Inl e) \<or> (\<exists>e. lookup fsys tempDataDir = Inl e) \<longrightarrow>
            (\<exists>err. verifyTestCase fsys sprintf red dmp location tempDir testName = Inl err))
       \<and> IsReservedInDest [ABCInternalDir, ABCInternalStdout]
       \<and> (\<forall>g t. lookup fsys goldenDataDir = Inr g \<and> lookup fsys tempDataDir = Inr t \<longrightarrow>
            (\<exists>relPaths. collectRelPaths fsys goldenDataDir tempDataDir = Inr relPaths))
       \<and> (\<forall>g t relPaths.
              lookup fsys goldenDataDir = Inr g \<and> lookup fsys tempDataDir = Inr t
            \<and> collectRelPaths fsys goldenDataDir tempDataDir = Inr relPaths \<longrightarrow>
              set relPaths = {p \<in> set (all_files g) \<union> set (all_files t). \<not> IsReservedInDest p}
              \<and> distinct relPaths
              \<and> sorted (map path_string relPaths)
              \<and> (\<forall>p \<in> set relPaths. take 1 p \<noteq> [''.abc''])
              \<and> (\<forall>ps p qs err.
                     relPaths = ps @ p # qs
                   \<and> \<not> list_ex (read_fails fsys goldenDataDir tempDataDir) ps
                   \<and> read_error fsys goldenDataDir tempDataDir p = Some err \<longrightarrow>
                     verifyTestCase fsys sprintf red dmp location tempDir testName = Inl err)
              \<and> (\<not> list_ex (read_fails fsys goldenDataDir tempDataDir) relPaths
                   \<and> (genuine_read_error (os_ReadFile fsys (Join goldenDataDir [ABCInternalDir, ABCInternalStdout]))
                      \<or> genuine_read_error (os_ReadFile fsys (Join tempDataDir [ABCInternalDir, ABCInternalStdout])))
                   \<longrightarrow> (\<exists>err. verifyTestCase fsys sprintf red dmp location tempDir testName
                                 = Inl (Wrapped ''failed to compare stdout:'' err)))
              \<and> (\<not> list_ex (read_fails fsys goldenDataDir tempDataDir) relPaths
                   \<and> \<not> genuine_read_error (os_ReadFile fsys (Join goldenDataDir [ABCInternalDir, ABCInternalStdout]))
                   \<and> \<not> genuine_read_error (os_ReadFile fsys (Join tempDataDir [ABCInternalDir, ABCInternalStdout]))
                   \<longrightarrow>
                     (\<exists>r. verifyTestCase fsys sprintf red dmp location tempDir testName = Inr r
                        \<and> reported_opt r
                            = concat (map (findings fsys sprintf red dmp goldenDataDir tempDataDir) relPaths)
                              @ (if hasDiff stdoutDiff then [printedDiffer red dmp stdoutDiff] else [])
                              @ (if list_ex (flags_mismatch fsys dmp goldenDataDir tempDataDir) relPaths
                                    \<or> hasDiff stdoutDiff
                                 then [didNotMatch sprintf red testName] else [])
                        \<and> (r = None \<longleftrightarrow>
                              concat (map (findings fsys sprintf red dmp goldenDataDir tempDataDir) relPaths) = []
                              \<and> \<not> hasDiff stdoutDiff)
                        \<and> (\<forall>p \<in> set relPaths.
                              ((\<exists>c. lookup g p = Inr (File c)) \<or> lookup g p = Inl ErrNotExist)
                              \<and> ((\<exists>c. lookup g p = Inr (File c)) \<longrightarrow>
                                    (\<exists>c. lookup t p = Inr (File c)) \<or> lookup t p = Inl ErrNotExist)
                              \<and> (lookup g p = Inl ErrNotExist \<longrightarrow>
                                    notRecorded sprintf red (Join goldenDataDir p) \<in> set (reported_opt r))
                              \<and> ((\<exists>c. lookup g p = Inr (File c)) \<and> lookup t p = Inl ErrNotExist \<longrightarrow>
                                    expectedMissing sprintf red (Join goldenDataDir p) \<in> set (reported_opt r))
                              \<and> (\<forall>gc tc. lookup g p = Inr (File gc) \<and> lookup t p = Inr (File tc)
                                          \<and> hasDiff (DiffMain dmp tc gc) \<longrightarrow>
                                    contentMismatch red dmp (Join goldenDataDir p) (DiffMain dmp tc gc)
                                      \<in> set (reported_opt r))))))"
proof -
  have missing: "\<exists>err. verifyTestCase fsys sprintf red dmp location tempDir testName = Inl err"
    if "(\<exists>e. lookup fsys goldenDataDir = Inl e) \<or> (\<exists>e. lookup fsys tempDataDir = Inl e)"
    using verifyTestCase_missing [where fsys = fsys and location = location and testName = testName
        and tempDir = tempDir and sprintf = sprintf and red = red and dmp = dmp] that
    unfolding goldenDataDir_def tempDataDir_def by blast
  have reserved: "IsReservedInDest [ABCInternalDir, ABCInternalStdout]"
    by (simp add: IsReservedInDest_def)
  have collected: "\<exists>relPaths. collectRelPaths fsys goldenDataDir tempDataDir = Inr relPaths"
    if "lookup fsys goldenDataDir = Inr g" and "lookup fsys tempDataDir = Inr t" for g t
    by (simp add: collectRelPaths_found [OF that])
  have visited: "set relPaths = {p \<in> set (all_files g) \<union> set (all_files t). \<not> IsReservedInDest p}
                  \<and> distinct relPaths
                  \<and> sorted (map path_string relPaths)
                  \<and> (\<forall>p \<in> set relPaths. take 1 p \<noteq> [''.abc''])
                  \<and> (\<forall>ps p qs err.
                         relPaths = ps @ p # qs
                       \<and> \<not> list_ex (read_fails fsys goldenDataDir tempDataDir) ps
                       \<and> read_error fsys goldenDataDir tempDataDir p = Some err \<longrightarrow>
                         verifyTestCase fsys sprintf red dmp location tempDir testName = Inl err)
                  \<and> (\<not> list_ex (read_fails fsys goldenDataDir tempDataDir) relPaths
                       \<and> (genuine_read_error (os_ReadFile fsys (Join goldenDataDir [ABCInternalDir, ABCInternalStdout]))
                          \<or> genuine_read_error (os_ReadFile fsys (Join tempDataDir [ABCInternalDir, ABCInternalStdout])))
                       \<longrightarrow> (\<exists>err. verifyTestCase fsys sprintf red dmp location tempDir testName
                                     = Inl (Wrapped ''failed to compare stdout:'' err)))
                  \<and> (\<not> list_ex (read_fails fsys goldenDataDir tempDataDir) relPaths
                       \<and> \<not> genuine_read_error (os_ReadFile fsys (Join goldenDataDir [ABCInternalDir, ABCInternalStdout]))
                       \<and> \<not> genuine_read_error (os_ReadFile fsys (Join tempDataDir [ABCInternalDir, ABCInternalStdout]))
                       \<longrightarrow>
                         (\<exists>r. verifyTestCase fsys sprintf red dmp location tempDir testName = Inr r
                            \<and> reported_opt r
                                = concat (map (findings fsys sprintf red dmp goldenDataDir tempDataDir) relPaths)
                                  @ (if hasDiff stdoutDiff then [printedDiffer red dmp stdoutDiff] else [])
                                  @ (if list_ex (flags_mismatch fsys dmp goldenDataDir tempDataDir) relPaths
                                        \<or> hasDiff stdoutDiff
                                     then [didNotMatch sprintf red testName] else [])
                            \<and> (r = None \<longleftrightarrow>
                                  concat (map (findings fsys sprintf red dmp goldenDataDir tempDataDir) relPaths) = []
                                  \<and> \<not> hasDiff stdoutDiff)
                            \<and> (\<forall>p \<in> set relPaths.
                                  ((\<exists>c. lookup g p = Inr (File c)) \<or> lookup g p = Inl ErrNotExist)
                                  \<and> ((\<exists>c. lookup g p = Inr (File c)) \<longrightarrow>
                                        (\<exists>c. lookup t p = Inr (File c)) \<or> lookup t p = Inl ErrNotExist)
                                  \<and> (lookup g p = Inl ErrNotExist \<longrightarrow>
                                        notRecorded sprintf red (Join goldenDataDir p) \<in> set (reported_opt r))
                                  \<and> ((\<exists>c. lookup g p = Inr (File c)) \<and> lookup t p = Inl ErrNotExist \<longrightarrow>
                                        expectedMissing sprintf red (Join goldenDataDir p) \<in> set (reported_opt r))
                                  \<and> (\<forall>gc tc. lookup g p = Inr (File gc) \<and> lookup t p = Inr (File tc)
                                              \<and> hasDiff (DiffMain dmp tc gc) \<longrightarrow>
                                        contentMismatch red dmp (Join goldenDataDir p) (DiffMain dmp tc gc)
                                          \<in> set (reported_opt r)))))"
    if g: "lookup fsys goldenDataDir = Inr g" and t: "lookup fsys tempDataDir = Inr t"
      and rel: "collectRelPaths fsys goldenDataDir tempDataDir = Inr relPaths" for g t relPaths
  proof -
    from rel have relPaths:
      "relPaths = sort_key path_string (add_all (add_all [] (comparable_files g)) (comparable_files t))"
      by (simp add: collectRelPaths_found [OF g t])
    have set_rel: "set relPaths = {p \<in> set (all_files g) \<union> set (all_files t). \<not> IsReservedInDest p}"
      unfolding relPaths by (auto simp: set_add_all comparable_files_def)
    have dist: "distinct relPaths"
      unfolding relPaths by (simp add: distinct_add_all)
    have sorted: "sorted (map path_string relPaths)"
      unfolding relPaths by (rule sorted_sort_key)
    have abc: "\<forall>p \<in> set relPaths. take 1 p \<noteq> [''.abc'']"
    proof
      fix p assume "p \<in> set relPaths"
      with set_rel have "\<not> IsReservedInDest p" by simp
      then show "take 1 p \<noteq> [''.abc'']"
        by (cases p) (auto simp: IsReservedInDest_def ABCInternalDir_def)
    qed
    have abort: "verifyTestCase fsys sprintf red dmp location tempDir testName = Inl err"
      if "relPaths = ps @ p # qs"
        and "\<not> list_ex (read_fails fsys goldenDataDir tempDataDir) ps"
        and "read_error fsys goldenDataDir tempDataDir p = Some err" for ps p qs err
      using verifyTestCase_abort [where fsys = fsys and location = location and testName = testName
          and tempDir = tempDir and ps = ps and p = p and qs = qs and err = err and sprintf = sprintf
          and red = red and dmp = dmp]
        rel that
      unfolding goldenDataDir_def tempDataDir_def by simp
    have stdout_error: "\<exists>err. verifyTestCase fsys sprintf red dmp location tempDir testName
                                 = Inl (Wrapped ''failed to compare stdout:'' err)"
      if "\<not> list_ex (read_fails fsys goldenDataDir tempDataDir) relPaths"
        and "genuine_read_error (os_ReadFile fsys (Join goldenDataDir [ABCInternalDir, ABCInternalStdout]))
           \<or> genuine_read_error (os_ReadFile fsys (Join tempDataDir [ABCInternalDir, ABCInternalStdout]))"
      using verifyTestCase_stdout_error [where fsys = fsys and location = location and testName = testName
          and tempDir = tempDir and relPaths = relPaths and sprintf = sprintf and red = red and dmp = dmp]
        rel that
      unfolding goldenDataDir_def tempDataDir_def by simp
    have verdict: "(\<exists>r. verifyTestCase fsys sprintf red dmp location tempDir testName = Inr r
                       \<and> reported_opt r
                           = concat (map (findings fsys sprintf red dmp goldenDataDir tempDataDir) relPaths)
                             @ (if hasDiff stdoutDiff then [printedDiffer red dmp stdoutDiff] else [])
                             @ (if list_ex (flags_mismatch fsys dmp goldenDataDir tempDataDir) relPaths
                                   \<or> hasDiff stdoutDiff
                                then [didNotMatch sprintf red testName] else [])
                       \<and> (r = None \<longleftrightarrow>
                             concat (map (findings fsys sprintf red dmp goldenDataDir tempDataDir) relPaths) = []
                             \<and> \<not> hasDiff stdoutDiff)
                       \<and> (\<forall>p \<in> set relPaths.
                             ((\<exists>c. lookup g p = Inr (File c)) \<or> lookup g p = Inl ErrNotExist)
                             \<and> ((\<exists>c. lookup g p = Inr (File c)) \<longrightarrow>
                                   (\<exists>c. lookup t p = Inr (File c)) \<or> lookup t p = Inl ErrNotExist)
                             \<and> (lookup g p = Inl ErrNotExist \<longrightarrow>
                                   notRecorded sprintf red (Join goldenDataDir p) \<in> set (reported_opt r))
                             \<and> ((\<exists>c. lookup g p = Inr (File c)) \<and> lookup t p = Inl ErrNotExist \<longrightarrow>
                                   expectedMissing sprintf red (Join goldenDataDir p) \<in> set (reported_opt r))
                             \<and> (\<forall>gc tc. lookup g p = Inr (File gc) \<and> lookup t p = Inr (File tc)
                                         \<and> hasDiff (DiffMain dmp tc gc) \<longrightarrow>
                                   contentMismatch red dmp (Join goldenDataDir p) (DiffMain dmp tc gc)
                                     \<in> set (reported_opt r))))"
      if ok: "\<not> list_ex (read_fails fsys goldenDataDir tempDataDir) relPaths"
        and okg: "\<not> genuine_read_error (os_ReadFile fsys (Join goldenDataDir [ABCInternalDir, ABCInternalStdout]))"
        and okt: "\<not> genuine_read_error (os_ReadFile fsys (Join tempDataDir [ABCInternalDir, ABCInternalStdout]))"
    proof -
      from verifyTestCase_verdict [where fsys = fsys and location = location and testName = testName
          and tempDir = tempDir and relPaths = relPaths and dmp = dmp and sprintf = sprintf and red = red]
        rel ok okg okt
      obtain r where
        run: "verifyTestCase fsys sprintf red dmp location tempDir testName = Inr r" and
        reports: "reported_opt r
                          = concat (map (findings fsys sprintf red dmp goldenDataDir tempDataDir) relPaths)
                            @ (if hasDiff stdoutDiff then [printedDiffer red dmp stdoutDiff] else [])
                            @ (if list_ex (flags_mismatch fsys dmp goldenDataDir tempDataDir) relPaths
                                  \<or> hasDiff stdoutDiff
                               then [didNotMatch sprintf red testName] else [])" and
        none: "r = None \<longleftrightarrow>
                            concat (map (findings fsys sprintf red dmp goldenDataDir tempDataDir) relPaths) = []
                            \<and> \<not> hasDiff stdoutDiff"
        unfolding goldenDataDir_def tempDataDir_def stdoutDiff_def by blast
      have inside: "e \<in> set (reported_opt r)"
        if "p \<in> set relPaths" and "e \<in> set (findings fsys sprintf red dmp goldenDataDir tempDataDir p)" for p e
        unfolding reports using that by auto
      have each: "((\<exists>c. lookup g p = Inr (File c)) \<or> lookup g p = Inl ErrNotExist)
                   \<and> ((\<exists>c. lookup g p = Inr (File c)) \<longrightarrow>
                         (\<exists>c. lookup t p = Inr (File c)) \<or> lookup t p = Inl ErrNotExist)
                   \<and> (lookup g p = Inl ErrNotExist \<longrightarrow>
                         notRecorded sprintf red (Join goldenDataDir p) \<in> set (reported_opt r))
                   \<and> ((\<exists>c. lookup g p = Inr (File c)) \<and> lookup t p = Inl ErrNotExist \<longrightarrow>
                         expectedMissing sprintf red (Join goldenDataDir p) \<in> set (reported_opt r))
                   \<and> (\<forall>gc tc. lookup g p = Inr (File gc) \<and> lookup t p = Inr (File tc)
                               \<and> hasDiff (DiffMain dmp tc gc) \<longrightarrow>
                         contentMismatch red dmp (Join goldenDataDir p) (DiffMain dmp tc gc)
                           \<in> set (reported_opt r))"
        if p: "p \<in> set relPaths" for p
      proof -
        from ok p have okp: "\<not> read_fails fsys goldenDataDir tempDataDir p"
          by (auto simp: list_ex_iff)
        note a = unreadable_golden [OF g okp]
        have b: "(\<exists>c. lookup t p = Inr (File c)) \<or> lookup t p = Inl ErrNotExist"
          if "\<exists>c. lookup g p = Inr (File c)"
          using that unreadable_temp [OF g t okp] by blast
        have c: "notRecorded sprintf red (Join goldenDataDir p) \<in> set (reported_opt r)"
          if "lookup g p = Inl ErrNotExist"
          using inside [OF p] findings_cases(1) [OF g t that, of sprintf red dmp] by simp
        have d: "expectedMissing sprintf red (Join goldenDataDir p) \<in> set (reported_opt r)"
          if "lookup g p = Inr (File gc)" and "lookup t p = Inl ErrNotExist" for gc
          using inside [OF p] findings_cases(2) [OF g t that, of sprintf red dmp] by simp
        have e: "contentMismatch red dmp (Join goldenDataDir p) (DiffMain dmp tc gc) \<in> set (reported_opt r)"
          if "lookup g p = Inr (File gc)" and "lookup t p = Inr (File tc)"
            and "hasDiff (DiffMain dmp tc gc)" for gc tc
          using inside [OF p] findings_cases(3) [OF g t that(1,2), of sprintf red dmp] that(3) by simp
        from a b c d e show ?thesis by blast
      qed
      from run reports none each show ?thesis by blast
    qed
    from set_rel dist sorted abc abort stdout_error verdict show ?thesis by blast
  qed
  show ?thesis
    apply (intro conjI)
       apply (rule impI, erule missing)
      apply (rule reserved)
     apply (intro allI impI, elim conjE, erule (1) collected)
    apply (intro allI impI, elim conjE, rule visited; assumption)
    done
qed

lemma demo_dirs:
  "Join [''template''] (Join goldenTestDir [''test'', testDataDir]) = demo_goldenDataDir"
  "Join [''tmp''] (Join goldenTestDir [''test'', testDataDir]) = demo_tempDataDir"
  by (simp_all add: Join_def goldenTestDir_def testDataDir_def demo_goldenDataDir_def demo_tempDataDir_def)

lemma report_lookup:
  "lookup report_fs demo_goldenDataDir = Inr report_golden"
  "lookup report_fs demo_tempDataDir = Inr report_temp"
  by (simp_all add: report_fs_def demo_goldenDataDir_def demo_tempDataDir_def)

lemma report_collectRelPaths:
  "collectRelPaths report_fs demo_goldenDataDir demo_tempDataDir
     = Inr [[''100%d.txt''], [''a.txt''], [''b.txt''], [''c.txt'']]"
  by code_simp

lemma report_reads:
  "\<not> list_ex (read_fails report_fs demo_goldenDataDir demo_tempDataDir)
        [[''100%d.txt''], [''a.txt''], [''b.txt''], [''c.txt'']]"
  "\<not> genuine_read_error (os_ReadFile report_fs (Join demo_goldenDataDir [ABCInternalDir, ABCInternalStdout]))"
  "\<not> genuine_read_error (os_ReadFile report_fs (Join demo_tempDataDir [ABCInternalDir, ABCInternalStdout]))"
  by code_simp+

lemma report_findings:
  "concat (map (findings report_fs doPrintf id demo_dmp demo_goldenDataDir demo_tempDataDir)
             [[''100%d.txt''], [''a.txt''], [''b.txt''], [''c.txt'']])
   @ (if hasDiff (DiffMain demo_dmp
                    (stdout_content (os_ReadFile report_fs (Join demo_tempDataDir [ABCInternalDir, ABCInternalStdout])))
                    (stdout_content (os_ReadFile report_fs (Join demo_goldenDataDir [ABCInternalDir, ABCInternalStdout]))))
      then [printedDiffer id demo_dmp
              (DiffMain demo_dmp
                 (stdout_content (os_ReadFile report_fs (Join demo_tempDataDir [ABCInternalDir, ABCInternalStdout])))
                 (stdout_content (os_ReadFile report_fs (Join demo_goldenDataDir [ABCInternalDir, ABCInternalStdout]))))]
      else [])
   @ (if list_ex (flags_mismatch report_fs demo_dmp demo_goldenDataDir demo_tempDataDir)
           [[''100%d.txt''], [''a.txt''], [''b.txt''], [''c.txt'']]
         \<or> hasDiff (DiffMain demo_dmp
                    (stdout_content (os_ReadFile report_fs (Join demo_tempDataDir [ABCInternalDir, ABCInternalStdout])))
                    (stdout_content (os_ReadFile report_fs (Join demo_goldenDataDir [ABCInternalDir, ABCInternalStdout]))))
      then [didNotMatch doPrintf id ''test''] else [])
   = [expectedMissing doPrintf id (Join demo_goldenDataDir [''100%d.txt'']),
      contentMismatch id demo_dmp (Join demo_goldenDataDir [''a.txt'']) (DiffMain demo_dmp ''A2'' ''A''),
      expectedMissing doPrintf id (Join demo_goldenDataDir [''b.txt'']),
      notRecorded doPrintf id (Join demo_goldenDataDir [''c.txt'']),
      printedDiffer id demo_dmp (DiffMain demo_dmp ''Bye'' ''Hello''),
      didNotMatch doPrintf id ''test'']"
  by code_simp

lemma report_percent:
  "expectedMissing doPrintf id (Join demo_goldenDataDir [''100%d.txt''])
     = ErrText ''-- [template/testdata/golden/test/data/100%!d(MISSING).txt] expected, however missing''"
  by code_simp

lemma conflict_lookup:
  "lookup conflict_fs demo_goldenDataDir = Inr conflict_golden"
  "lookup conflict_fs demo_tempDataDir = Inr conflict_temp"
  by (simp_all add: conflict_fs_def demo_goldenDataDir_def demo_tempDataDir_def)

lemma conflict_collectRelPaths:
  "collectRelPaths conflict_fs demo_goldenDataDir demo_tempDataDir = Inr [[''a''], [''a'', ''b.txt'']]"
  by code_simp

lemma conflict_read_error:
  "read_error conflict_fs demo_goldenDataDir demo_tempDataDir [''a'']
     = Some (failedToRead (Join demo_tempDataDir [''a'']) (Wrapped ''read: '' ErrIsDir))"
  by code_simp

lemma unreadable_lookup:
  "lookup unreadable_fs demo_goldenDataDir = Inr (Dir [(''.abc'', Dir [(''stdout'', Dir [])])])"
  "lookup unreadable_fs demo_tempDataDir = Inr (Dir [])"
  by (simp_all add: unreadable_fs_def demo_goldenDataDir_def demo_tempDataDir_def)

lemma unreadable_collectRelPaths:
  "collectRelPaths unreadable_fs demo_goldenDataDir demo_tempDataDir = Inr []"
  by code_simp

lemma unreadable_stdout:
  "genuine_read_error (os_ReadFile unreadable_fs (Join demo_goldenDataDir [ABCInternalDir, ABCInternalStdout]))"
  by code_simp

lemma unrecorded_lookup: "lookup unrecorded_fs demo_goldenDataDir = Inl ErrNotExist"
  by (simp add: unrecorded_fs_def demo_goldenDataDir_def)

text \<open>
  The second rendering gets its verdict: six failures, in the order of the sorted paths
  with the printed output and the hint last, and the percent sign of \<^verbatim>\<open>100%d.txt\<close> is
  read as a verb. The third rendering ends \<^verbatim>\<open>Run\<close> at \<^verbatim>\<open>a\<close>, the first path in
  sorted order; a recorded \<^verbatim>\<open>.abc/stdout\<close> that is a directory ends it at the comparison
  of the printed output, and a test without a data directory ends it at the walk.
\<close>

theorem C7_verify_file_comparison_witness:
  "lookup report_fs demo_goldenDataDir = Inr report_golden
   \<and> lookup report_fs demo_tempDataDir = Inr report_temp
   \<and> collectRelPaths report_fs demo_goldenDataDir demo_tempDataDir
       = Inr [[''100%d.txt''], [''a.txt''], [''b.txt''], [''c.txt'']]
   \<and> sorted (map path_string [[''100%d.txt''], [''a.txt''], [''b.txt''], [''c.txt'']])
   \<and> (\<exists>r. verifyTestCase report_fs doPrintf id demo_dmp [''template''] [''tmp''] ''test'' = Inr r
          \<and> reported_opt r
              = [expectedMissing doPrintf id (Join demo_goldenDataDir [''100%d.txt'']),
                 contentMismatch id demo_dmp (Join demo_goldenDataDir [''a.txt'']) (DiffMain demo_dmp ''A2'' ''A''),
                 expectedMissing doPrintf id (Join demo_goldenDataDir [''b.txt'']),
                 notRecorded doPrintf id (Join demo_goldenDataDir [''c.txt'']),
                 printedDiffer id demo_dmp (DiffMain demo_dmp ''Bye'' ''Hello''),
                 didNotMatch doPrintf id ''test'']
          \<and> notRecorded doPrintf id (Join demo_goldenDataDir [''c.txt'']) \<in> set (reported_opt r)
          \<and> expectedMissing doPrintf id (Join demo_goldenDataDir [''b.txt'']) \<in> set (reported_opt r)
          \<and> contentMismatch id demo_dmp (Join demo_goldenDataDir [''a.txt'']) (DiffMain demo_dmp ''A2'' ''A'')
                \<in> set (reported_opt r))
   \<and> expectedMissing doPrintf id (Join demo_goldenDataDir [''100%d.txt''])
       = ErrText ''-- [template/testdata/golden/test/data/100%!d(MISSING).txt] expected, however missing''
   \<and> collectRelPaths conflict_fs demo_goldenDataDir demo_tempDataDir = Inr [[''a''], [''a'', ''b.txt'']]
   \<and> read_error conflict_fs demo_goldenDataDir demo_tempDataDir [''a'']
       = Some (failedToRead (Join demo_tempDataDir [''a'']) (Wrapped ''read: '' ErrIsDir))
   \<and> verifyTestCase conflict_fs doPrintf id demo_dmp [''template''] [''tmp''] ''test''
       = Inl (failedToRead (Join demo_tempDataDir [''a'']) (Wrapped ''read: '' ErrIsDir))
   \<and> genuine_read_error (os_ReadFile unreadable_fs (Join demo_goldenDataDir [ABCInternalDir, ABCInternalStdout]))
   \<and> (\<exists>err. verifyTestCase unreadable_fs doPrintf id demo_dmp [''template''] [''tmp''] ''test''
               = Inl (Wrapped ''failed to compare stdout:'' err))
   \<and> lookup unrecorded_fs demo_goldenDataDir = Inl ErrNotExist
   \<and> (\<exists>err. verifyTestCase unrecorded_fs doPrintf id demo_dmp [''template''] [''tmp''] ''test'' = Inl err)"
proof -
  note report = C7_verify_file_comparison [where fsys = report_fs and location = "[''template'']"
      and testName = "''test''" and tempDir = "[''tmp'']" and sprintf = doPrintf and red = id
      and dmp = demo_dmp, unfolded demo_dirs,
      THEN conjunct2, THEN conjunct2, THEN conjunct2, rule_format,
      OF conjI [OF report_lookup(1) conjI [OF report_lookup(2) report_collectRelPaths]]]
  note srt = report [THEN conjunct2, THEN conjunct2, THEN conjunct1]
  note verdict = report [THEN conjunct2, THEN conjunct2, THEN conjunct2, THEN conjunct2,
      THEN conjunct2, THEN conjunct2, rule_format,
      OF conjI [OF report_reads(1) conjI [OF report_reads(2) report_reads(3)]]]
  from verdict obtain r where
    run: "verifyTestCase report_fs doPrintf id demo_dmp [''template''] [''tmp''] ''test'' = Inr r" and
    rep: "reported_opt r
       = concat (map (findings report_fs doPrintf id demo_dmp demo_goldenDataDir demo_tempDataDir)
             [[''100%d.txt''], [''a.txt''], [''b.txt''], [''c.txt'']])
   @ (if hasDiff (DiffMain demo_dmp
                    (stdout_content (os_ReadFile report_fs (Join demo_tempDataDir [ABCInternalDir, ABCInternalStdout])))
                    (stdout_content (os_ReadFile report_fs (Join demo_goldenDataDir [ABCInternalDir, ABCInternalStdout]))))
      then [printedDiffer id demo_dmp
              (DiffMain demo_dmp
                 (stdout_content (os_ReadFile report_fs (Join demo_tempDataDir [ABCInternalDir, ABCInternalStdout])))
                 (stdout_content (os_ReadFile report_fs (Join demo_goldenDataDir [ABCInternalDir, ABCInternalStdout]))))]
      else [])
   @ (if list_ex (flags_mismatch report_fs demo_dmp demo_goldenDataDir demo_tempDataDir)
           [[''100%d.txt''], [''a.txt''], [''b.txt''], [''c.txt'']]
         \<or> hasDiff (DiffMain demo_dmp
                    (stdout_content (os_ReadFile report_fs (Join demo_tempDataDir [ABCInternalDir, ABCInternalStdout])))
                    (stdout_content (os_ReadFile report_fs (Join demo_goldenDataDir [ABCInternalDir, ABCInternalStdout]))))
      then [didNotMatch doPrintf id ''test''] else [])" and
    each: "\<forall>p \<in> set [[''100%d.txt''], [''a.txt''], [''b.txt''], [''c.txt'']].
             ((\<exists>c. lookup report_golden p = Inr (File c)) \<or> lookup report_golden p = Inl ErrNotExist)
           \<and> ((\<exists>c. lookup report_golden p = Inr (File c)) \<longrightarrow>
                 (\<exists>c. lookup report_temp p = Inr (File c)) \<or> lookup report_temp p = Inl ErrNotExist)
           \<and> (lookup report_golden p = Inl ErrNotExist \<longrightarrow>
                 notRecorded doPrintf id (Join demo_goldenDataDir p) \<in> set (reported_opt r))
           \<and> ((\<exists>c. lookup report_golden p = Inr (File c)) \<and> lookup report_temp p = Inl ErrNotExist \<longrightarrow>
                 expectedMissing doPrintf id (Join demo_goldenDataDir p) \<in> set (reported_opt r))
           \<and> (\<forall>gc tc. lookup report_golden p = Inr (File gc) \<and> lookup report_temp p = Inr (File tc)
                       \<and> hasDiff (DiffMain demo_dmp tc gc) \<longrightarrow>
                 contentMismatch id demo_dmp (Join demo_goldenDataDir p) (DiffMain demo_dmp tc gc)
                   \<in> set (reported_opt r))"
    apply (elim exE conjE)
    apply (rule that; assumption)
    done
  have c_in: "[''c.txt''] \<in> set [[''100%d.txt''], [''a.txt''], [''b.txt''], [''c.txt'']]"
    and b_in: "[''b.txt''] \<in> set [[''100%d.txt''], [''a.txt''], [''b.txt''], [''c.txt'']]"
    and a_in: "[''a.txt''] \<in> set [[''100%d.txt''], [''a.txt''], [''b.txt''], [''c.txt'']]"
    by simp_all
  have c_golden: "lookup report_golden [''c.txt''] = Inl ErrNotExist"
    and b_golden: "\<exists>c. lookup report_golden [''b.txt''] = Inr (File c)"
    and b_temp: "lookup report_temp [''b.txt''] = Inl ErrNotExist"
    and a_golden: "lookup report_golden [''a.txt''] = Inr (File ''A'')"
    and a_temp: "lookup report_temp [''a.txt''] = Inr (File ''A2'')"
    by (simp_all add: report_golden_def report_temp_def)
  have a_diff: "hasDiff (DiffMain demo_dmp ''A2'' ''A'')"
    by (simp add: demo_dmp_def)
  note c_reported = each [THEN bspec, OF c_in, THEN conjunct2, THEN conjunct2, THEN conjunct1,
      THEN mp, OF c_golden]
  note b_reported = each [THEN bspec, OF b_in, THEN conjunct2, THEN conjunct2, THEN conjunct2,
      THEN conjunct1, THEN mp, OF conjI [OF b_golden b_temp]]
  note a_reported = each [THEN bspec, OF a_in, THEN conjunct2, THEN conjunct2, THEN conjunct2,
      THEN conjunct2, rule_format, OF conjI [OF a_golden conjI [OF a_temp a_diff]]]
  from run rep [unfolded report_findings] c_reported b_reported a_reported have reported:
    "\<exists>r. verifyTestCase report_fs doPrintf id demo_dmp [''template''] [''tmp''] ''test'' = Inr r
          \<and> reported_opt r
              = [expectedMissing doPrintf id (Join demo_goldenDataDir [''100%d.txt'']),
                 contentMismatch id demo_dmp (Join demo_goldenDataDir [''a.txt'']) (DiffMain demo_dmp ''A2'' ''A''),
                 expectedMissing doPrintf id (Join demo_goldenDataDir [''b.txt'']),
                 notRecorded doPrintf id (Join demo_goldenDataDir [''c.txt'']),
                 printedDiffer id demo_dmp (DiffMain demo_dmp ''Bye'' ''Hello''),
                 didNotMatch doPrintf id ''test'']
          \<and> notRecorded doPrintf id (Join demo_goldenDataDir [''c.txt'']) \<in> set (reported_opt r)
          \<and> expectedMissing doPrintf id (Join demo_goldenDataDir [''b.txt'']) \<in> set (reported_opt r)
          \<and> contentMismatch id demo_dmp (Join demo_goldenDataDir [''a.txt'']) (DiffMain demo_dmp ''A2'' ''A'')
                \<in> set (reported_opt r)"
    by (intro exI conjI)
  note conflict = C7_verify_file_comparison [where fsys = conflict_fs and location = "[''template'']"
      and testName = "''test''" and tempDir = "[''tmp'']" and sprintf = doPrintf and red = id
      and dmp = demo_dmp, unfolded demo_dirs,
      THEN conjunct2, THEN conjunct2, THEN conjunct2, rule_format,
      OF conjI [OF conflict_lookup(1) conjI [OF conflict_lookup(2) conflict_collectRelPaths]]]
  have split: "[[''a''], [''a'', ''b.txt'']] = [] @ [''a''] # [[''a'', ''b.txt'']]"
    by simp
  have first: "\<not> list_ex (read_fails conflict_fs demo_goldenDataDir demo_tempDataDir) []"
    by simp
  note aborts = conflict [THEN conjunct2, THEN conjunct2, THEN conjunct2, THEN conjunct2,
      THEN conjunct1, rule_format, OF conjI [OF split conjI [OF first conflict_read_error]]]
  note unreadable = C7_verify_file_comparison [where fsys = unreadable_fs and location = "[''template'']"
      and testName = "''test''" and tempDir = "[''tmp'']" and sprintf = doPrintf and red = id
      and dmp = demo_dmp, unfolded demo_dirs,
      THEN conjunct2, THEN conjunct2, THEN conjunct2, rule_format,
      OF conjI [OF unreadable_lookup(1) conjI [OF unreadable_lookup(2) unreadable_collectRelPaths]]]
  have none_fail: "\<not> list_ex (read_fails unreadable_fs demo_goldenDataDir demo_tempDataDir) []"
    by simp
  note stdout_fails = unreadable [THEN conjunct2, THEN conjunct2, THEN conjunct2, THEN conjunct2,
      THEN conjunct2, THEN conjunct1, rule_format, OF conjI [OF none_fail disjI1 [OF unreadable_stdout]]]
  have absent: "\<exists>e. lookup unrecorded_fs demo_goldenDataDir = Inl e"
    using unrecorded_lookup by (rule exI)
  note unrecorded = C7_verify_file_comparison [where fsys = unrecorded_fs and location = "[''template'']"
      and testName = "''test''" and tempDir = "[''tmp'']" and sprintf = doPrintf and red = id
      and dmp = demo_dmp, unfolded demo_dirs,
      THEN conjunct1, rule_format, OF disjI1 [OF absent]]
  from report_lookup report_collectRelPaths srt reported report_percent conflict_collectRelPaths
    conflict_read_error aborts unreadable_stdout stdout_fails unrecorded_lookup unrecorded
  show ?thesis
    by (intro conjI)
qed

text \<open>
  C7 as the specification words it does not hold of every rendering. In the third
  rendering \<^verbatim>\<open>a/b.txt\<close> is a file of the rendered directory only, since \<^verbatim>\<open>a\<close> is a
  regular file in the golden data; the loop visits \<^verbatim>\<open>a\<close> first, reading it on the
  rendered side fails because it is a directory there, and \<^verbatim>\<open>Run\<close> returns that error:
  no mismatch is reported for \<^verbatim>\<open>a/b.txt\<close>.
\<close>

theorem C7_one_sided_file_not_reported:
  "lookup conflict_fs (Join demo_tempDataDir [''a'', ''b.txt'']) = Inr (File ''y'')
   \<and> lookup conflict_fs (Join demo_goldenDataDir [''a'', ''b.txt'']) = Inl ErrNotDir
   \<and> collectRelPaths conflict_fs demo_goldenDataDir demo_tempDataDir = Inr [[''a''], [''a'', ''b.txt'']]
   \<and> verifyTestCase conflict_fs doPrintf id demo_dmp [''template''] [''tmp''] ''test''
       = Inl (Wrapped ''failed to read (tmp/testdata/golden/test/data/a): '' (Wrapped ''read: '' ErrIsDir))"
  by (intro conjI; code_simp)

theorem C10_getStdoutDiff_witness:
  "(\<forall>s. \<not> hasDiff (DiffMain demo_dmp s s))
   \<and> os_ReadFile demo_fs (Join demo_goldenDataDir [ABCInternalDir, ABCInternalStdout]) = Inr ''Hello''
   \<and> os_ReadFile demo_fs (Join demo_tempDataDir [ABCInternalDir, ABCInternalStdout]) = Inr ''Hello''
   \<and> (\<exists>diffs. getStdoutDiff demo_fs (Join demo_goldenDataDir [ABCInternalDir, ABCInternalStdout])
                  (Join demo_tempDataDir [ABCInternalDir, ABCInternalStdout]) demo_dmp = Inr diffs
               \<and> \<not> hasDiff diffs)
   \<and> os_ReadFile demo_golden [''stdout''] = Inl (Wrapped ''open: '' ErrNotExist)
   \<and> os_ReadFile demo_temp [''stdout''] = Inl (Wrapped ''open: '' ErrNotExist)
   \<and> (\<exists>diffs. getStdoutDiff demo_golden [''stdout''] [''stdout''] demo_dmp = Inr diffs \<and> \<not> hasDiff diffs)
   \<and> genuine_read_error (os_ReadFile demo_fs [''template''])
   \<and> (\<exists>err. getStdoutDiff demo_fs [''template''] [''tmp'', ''stdout''] demo_dmp = Inl err)"
proof -
  have same: "\<forall>s. \<not> hasDiff (DiffMain demo_dmp s s)"
    by (simp add: demo_dmp_def)
  have hello:
    "os_ReadFile demo_fs (Join demo_goldenDataDir [ABCInternalDir, ABCInternalStdout]) = Inr ''Hello''"
    "os_ReadFile demo_fs (Join demo_tempDataDir [ABCInternalDir, ABCInternalStdout]) = Inr ''Hello''"
    by (simp_all add: os_ReadFile_def Join_def demo_goldenDataDir_def demo_tempDataDir_def
        ABCInternalDir_def ABCInternalStdout_def demo_fs_def demo_golden_def demo_temp_def)
  have absent:
    "os_ReadFile demo_golden [''stdout''] = Inl (Wrapped ''open: '' ErrNotExist)"
    "os_ReadFile demo_temp [''stdout''] = Inl (Wrapped ''open: '' ErrNotExist)"
    by (simp_all add: os_ReadFile_def demo_golden_def demo_temp_def)
  have ne: "errors_Is_NotExist (Wrapped ''open: '' ErrNotExist)"
    by simp
  have dir: "genuine_read_error (os_ReadFile demo_fs [''template''])"
    by (simp add: genuine_read_error_def os_ReadFile_def demo_fs_def)
  note identical = C10_getStdoutDiff [OF same, where fsys = demo_fs
      and gp = "Join demo_goldenDataDir [ABCInternalDir, ABCInternalStdout]"
      and tp = "Join demo_tempDataDir [ABCInternalDir, ABCInternalStdout]",
      THEN conjunct2, THEN conjunct2, THEN conjunct2, THEN conjunct1, rule_format,
      OF conjI [OF hello]]
  note both_absent = C10_getStdoutDiff [OF same, where fsys = demo_golden
      and gp = "[''stdout'']" and tp = "[''stdout'']",
      THEN conjunct2, THEN conjunct2, THEN conjunct1, rule_format,
      OF conjI [OF absent(1) conjI [OF ne conjI [OF absent(1) ne]]]]
  note aborts = C10_getStdoutDiff [OF same, where fsys = demo_fs
      and gp = "[''template'']" and tp = "[''tmp'', ''stdout'']",
      THEN conjunct1, THEN iffD2, OF disjI1 [OF dir]]
  from same hello identical absent both_absent dir aborts show ?thesis
    by (intro conjI)
qed

section \<open>The string_replace action\<close>

lemma NewReplacer_pairs: "NewReplacer (concat (map (\<lambda>(old, new). [old, new]) pairs)) = Some pairs"
  by (induction pairs) auto

lemma expandReplacements_pairs:
  "expandReplacements h scope rs replacerArgs
     = (case expanded_pairs h scope rs of
          Inl err \<Rightarrow> Inl err
        | Inr pairs \<Rightarrow> Inr (replacerArgs @ concat (map (\<lambda>(old, new). [old, new]) pairs)))"
  by (induction rs arbitrary: replacerArgs) (auto split: sum.splits)

lemma replacer_lookup_first:
  assumes "i < length r" and "starts_with s (fst (r ! i))"
    and "\<forall>k < i. \<not> starts_with s (fst (r ! k))"
  shows "replacer_lookup r s False = Some (r ! i)"
  using assms
proof (induction r arbitrary: i)
  case Nil
  then show ?case by simp
next
  case (Cons p r)
  obtain old new where p: "p = (old, new)" by (cases p)
  show ?case
  proof (cases i)
    case 0
    with Cons.prems p show ?thesis by (simp add: starts_with_def)
  next
    case (Suc j)
    with Cons.prems have "\<not> starts_with s (fst ((p # r) ! 0))" by blast
    with p have no: "take (length old) s \<noteq> old" by (simp add: starts_with_def)
    from Cons.prems Suc have "\<forall>k < j. \<not> starts_with s (fst (r ! k))" by auto
    with Cons.IH [of j] Cons.prems Suc have "replacer_lookup r s False = Some (r ! j)" by simp
    with no p Suc show ?thesis by simp
  qed
qed

lemma replacer_lookup_none:
  assumes "\<forall>k < length r. \<not> starts_with s (fst (r ! k))"
  shows "replacer_lookup r s False = None"
  using assms
proof (induction r)
  case Nil
  then show ?case by simp
next
  case (Cons p r)
  obtain old new where p: "p = (old, new)" by (cases p)
  from Cons.prems have "\<not> starts_with s (fst ((p # r) ! 0))" by blast
  with p have no: "take (length old) s \<noteq> old" by (simp add: starts_with_def)
  from Cons.prems have "\<forall>k < length r. \<not> starts_with s (fst (r ! k))" by auto
  with Cons.IH no p show ?case by simp
qed

lemma Replace_first:
  assumes "i < length r" and "starts_with s (fst (r ! i))"
    and "\<forall>k < i. \<not> starts_with s (fst (r ! k))"
  shows "Replace r s = snd (r ! i) @ replace_from r (drop (length (fst (r ! i))) s) (fst (r ! i) = [])"
proof -
  obtain old new where p: "r ! i = (old, new)" by (cases "r ! i")
  from replacer_lookup_first [OF assms] p show ?thesis
    by (simp add: Replace_def replace_from.simps [of r s False])
qed

lemma Replace_copy:
  assumes "\<forall>k < length r. \<not> starts_with (c # s) (fst (r ! k))"
  shows "Replace r (c # s) = c # Replace r s"
  using replacer_lookup_none [OF assms]
  by (simp add: Replace_def replace_from.simps [of r "c # s" False])

lemma expanded_pairs_nth:
  assumes "expanded_pairs h scope rs = Inr pairs"
  shows "length pairs = length rs
       \<and> (\<forall>i < length rs.
             parseAndExecuteGoTmpl h (Pos (ToReplace (rs ! i))) (Val (ToReplace (rs ! i))) scope
               = Inr (fst (pairs ! i))
           \<and> parseAndExecuteGoTmpl h (Pos (With (rs ! i))) (Val (With (rs ! i))) scope
               = Inr (snd (pairs ! i)))"
  using assms
proof (induction rs arbitrary: pairs)
  case Nil
  then show ?case by simp
next
  case (Cons r rs)
  from Cons.prems obtain toReplace replaceWith rest where
    a: "parseAndExecuteGoTmpl h (Pos (ToReplace r)) (Val (ToReplace r)) scope = Inr toReplace" and
    b: "parseAndExecuteGoTmpl h (Pos (With r)) (Val (With r)) scope = Inr replaceWith" and
    c: "expanded_pairs h scope rs = Inr rest" and
    p: "pairs = (toReplace, replaceWith) # rest"
    by (auto split: sum.splits)
  from Cons.IH [OF c] a b p show ?case
    by (auto simp: nth_Cons split: nat.splits)
qed

lemma actionStringReplace_fails:
  assumes "expanded_pairs h scope (Replacements sr) = Inl err"
  shows "actionStringReplace h sr scope scratch = (Some err, scratch)"
  using assms by (simp add: actionStringReplace_def expandReplacements_pairs)

lemma actionStringReplace_walks:
  assumes "expanded_pairs h scope (Replacements sr) = Inr pairs"
  shows "actionStringReplace h sr scope scratch
           = walkAndModify h scope (Paths sr) (\<lambda>buf. Inr (Replace pairs buf)) scratch"
  using assms by (simp add: actionStringReplace_def expandReplacements_pairs NewReplacer_pairs)

text \<open>
  C3. \<^verbatim>\<open>actionStringReplace\<close> first expands the two strings of every replacement, in
  the order of the list; when an expansion fails it returns that error and leaves the
  scratch directory alone. Otherwise it builds one replacer from all the expanded pairs, in
  the order of the list, and hands \<^verbatim>\<open>walkAndModify\<close> the paths of the step and a visitor
  that applies this replacer to the contents it is given. The replacer works in one pass:
  where the old strings of several pairs start at the same position, the pair listed first
  is applied and the pass goes on behind the match; where none starts, one byte is copied.
\<close>

theorem C3_actionStringReplace:
  "(\<forall>err. expanded_pairs h scope (Replacements sr) = Inl err \<longrightarrow>
       actionStringReplace h sr scope scratch = (Some err, scratch))
   \<and> (\<forall>pairs. expanded_pairs h scope (Replacements sr) = Inr pairs \<longrightarrow>
         length pairs = length (Replacements sr)
       \<and> (\<forall>i < length (Replacements sr).
             parseAndExecuteGoTmpl h (Pos (ToReplace (Replacements sr ! i)))
                 (Val (ToReplace (Replacements sr ! i))) scope = Inr (fst (pairs ! i))
           \<and> parseAndExecuteGoTmpl h (Pos (With (Replacements sr ! i)))
                 (Val (With (Replacements sr ! i))) scope = Inr (snd (pairs ! i)))
       \<and> actionStringReplace h sr scope scratch
           = walkAndModify h scope (Paths sr) (\<lambda>buf. Inr (Replace pairs buf)) scratch
       \<and> (\<forall>buf i. i < length pairs \<and> starts_with buf (fst (pairs ! i))
                  \<and> (\<forall>k < i. \<not> starts_with buf (fst (pairs ! k))) \<longrightarrow>
             Replace pairs buf
               = snd (pairs ! i)
                 @ replace_from pairs (drop (length (fst (pairs ! i))) buf) (fst (pairs ! i) = []))
       \<and> (\<forall>c buf. (\<forall>k < length pairs. \<not> starts_with (c # buf) (fst (pairs ! k))) \<longrightarrow>
             Replace pairs (c # buf) = c # Replace pairs buf))"
proof (intro conjI allI impI)
  fix err
  assume "expanded_pairs h scope (Replacements sr) = Inl err"
  then show "actionStringReplace h sr scope scratch = (Some err, scratch)"
    by (rule actionStringReplace_fails)
next
  fix pairs
  assume e: "expanded_pairs h scope (Replacements sr) = Inr pairs"
  from expanded_pairs_nth [OF e] show "length pairs = length (Replacements sr)"
    by simp
  from e show "actionStringReplace h sr scope scratch
           = walkAndModify h scope (Paths sr) (\<lambda>buf. Inr (Replace pairs buf)) scratch"
    by (rule actionStringReplace_walks)
  {
    fix i
    assume "i < length (Replacements sr)"
    with expanded_pairs_nth [OF e]
    show "parseAndExecuteGoTmpl h (Pos (ToReplace (Replacements sr ! i)))
                 (Val (ToReplace (Replacements sr ! i))) scope = Inr (fst (pairs ! i))"
      and "parseAndExecuteGoTmpl h (Pos (With (Replacements sr ! i)))
                 (Val (With (Replacements sr ! i))) scope = Inr (snd (pairs ! i))"
      by simp_all
  }
  {
    fix buf i
    assume a: "i < length pairs \<and> starts_with buf (fst (pairs ! i))
                  \<and> (\<forall>k < i. \<not> starts_with buf (fst (pairs ! k)))"
    show "Replace pairs buf
               = snd (pairs ! i)
                 @ replace_from pairs (drop (length (fst (pairs ! i))) buf) (fst (pairs ! i) = [])"
      by (rule Replace_first) (use a in blast)+
  }
  {
    fix c buf
    assume "\<forall>k < length pairs. \<not> starts_with (c # buf) (fst (pairs ! k))"
    then show "Replace pairs (c # buf) = c # Replace pairs buf"
      by (rule Replace_copy)
  }
qed

lemma demo_expanded_pairs:
  "expanded_pairs demo_render_host [(''name'', ''world'')] (Replacements demo_sr)
     = Inr [(''[name]'', ''world''), (''hell'', ''heaven''), (''hello'', ''goodbye'')]"
  by (simp add: demo_render_host_def demo_sr_def demo_expand_def)

lemma demo_expanded_fails:
  "expanded_pairs demo_render_host [] (Replacements demo_sr) = Inl (ErrText ''undefined variable: name'')"
  by (simp add: demo_render_host_def demo_sr_def demo_expand_def)

lemma demo_walked:
  "walkAndModify demo_render_host [(''name'', ''world'')] (Paths demo_sr)
     (\<lambda>buf. Inr (Replace [(''[name]'', ''world''), (''hell'', ''heaven''), (''hello'', ''goodbye'')] buf))
     [(''a.txt'', ''hello [name]'')]
   = (None, [(''a.txt'', ''heaveno world'')])"
  by code_simp

theorem C3_actionStringReplace_witness:
  "actionStringReplace demo_render_host demo_sr [(''name'', ''world'')] [(''a.txt'', ''hello [name]'')]
     = (None, [(''a.txt'', ''heaveno world'')])
   \<and> starts_with ''hello [name]'' ''hell'' \<and> starts_with ''hello [name]'' ''hello''
   \<and> Replace [(''[name]'', ''world''), (''hell'', ''heaven''), (''hello'', ''goodbye'')] ''hello [name]''
       = ''heaven'' @ replace_from [(''[name]'', ''world''), (''hell'', ''heaven''), (''hello'', ''goodbye'')]
                        ''o [name]'' False
   \<and> actionStringReplace demo_render_host demo_sr [] [(''a.txt'', ''hello [name]'')]
     = (Some (ErrText ''undefined variable: name''), [(''a.txt'', ''hello [name]'')])"
proof -
  note ok = C3_actionStringReplace [where h = demo_render_host and sr = demo_sr
      and scope = "[(''name'', ''world'')]" and scratch = "[(''a.txt'', ''hello [name]'')]",
      THEN conjunct2, rule_format, OF demo_expanded_pairs]
  note walks = ok [THEN conjunct2, THEN conjunct2, THEN conjunct1]
  note first = ok [THEN conjunct2, THEN conjunct2, THEN conjunct2, THEN conjunct1, rule_format,
      where buf = "''hello [name]''" and i = 1]
  note fails = C3_actionStringReplace [where h = demo_render_host and sr = demo_sr
      and scope = "[]" and scratch = "[(''a.txt'', ''hello [name]'')]",
      THEN conjunct1, rule_format, OF demo_expanded_fails]
  have s: "starts_with ''hello [name]'' ''hell''" "starts_with ''hello [name]'' ''hello''"
    "\<not> starts_with ''hello [name]'' ''[name]''"
    by (simp_all add: starts_with_def)
  have "Replace [(''[name]'', ''world''), (''hell'', ''heaven''), (''hello'', ''goodbye'')] ''hello [name]''
       = ''heaven'' @ replace_from [(''[name]'', ''world''), (''hell'', ''heaven''), (''hello'', ''goodbye'')]
                        ''o [name]'' False"
    using first s by simp
  with walks [unfolded demo_walked] fails s show ?thesis
    by (intro conjI)
qed

section \<open>The manifest writer\<close>

lemma sort_key_order_free:
  fixes xs ys :: "(string \<times> string) list"
  assumes "distinct (map fst xs)" and "distinct (map fst ys)" and "set xs = set ys"
  shows "sort_key fst xs = sort_key fst ys"
proof (rule map_sorted_distinct_set_unique [where f = fst])
  from assms(1) have "inj_on fst (set xs)"
    by (simp add: distinct_map)
  with assms(3) show "inj_on fst (set (sort_key fst xs) \<union> set (sort_key fst ys))"
    by simp
  show "sorted (map fst (sort_key fst xs))" "sorted (map fst (sort_key fst ys))"
    by (rule sorted_sort_key)+
  from assms(1) show "distinct (map fst (sort_key fst xs))"
    by (simp add: distinct_map)
  from assms(2) show "distinct (map fst (sort_key fst ys))"
    by (simp add: distinct_map)
  from assms(3) show "set (sort_key fst xs) = set (sort_key fst ys)"
    by simp
qed

lemma writeManifest_writes:
  assumes "\<not> dryRun p" and "hash_dir h (templateDir p) = Inr dirhash"
  shows "writeManifest h p fsys
           = (None, fsys(destDir p @ ''/.abc/'' @ manifest_name h p
                           \<mapsto> manifest_header @ yaml_Marshal h (buildManifest h p dirhash)))"
  using assms by (simp add: writeManifest_def)

text \<open>
  C4. A render that is not a dry run writes the manifest to
  \<^verbatim>\<open>.abc/manifest_<location-slug>_<timestamp>.lock.yaml\<close> under the destination, where
  the slug is the URL-encoded canonical source for a canonical render and the literal
  \<^verbatim>\<open>nolocation\<close> otherwise, so that a non-canonical render gets its manifest too. The
  inputs of the manifest are the given inputs sorted by name, whatever the order in which
  the map of inputs is iterated.
\<close>

theorem C4_writeManifest_name_and_inputs:
  assumes "\<not> dryRun p" and "hash_dir h (templateDir p) = Inr dirhash"
  shows "writeManifest h p fsys
           = (None, fsys(destDir p @ ''/.abc/'' @ ''manifest_''
                           @ (if IsCanonical (dlMeta p) then url_escape h (CanonicalSource (dlMeta p))
                              else ''nolocation'')
                           @ ''_'' @ Format_RFC3339Nano (Time_UTC (clock p)) @ ''.lock.yaml''
                         \<mapsto> manifest_header @ yaml_Marshal h (buildManifest h p dirhash)))
       \<and> sorted (map fst (manifest_inputs (buildManifest h p dirhash)))
       \<and> set (manifest_inputs (buildManifest h p dirhash)) = set (inputs p)
       \<and> length (manifest_inputs (buildManifest h p dirhash)) = length (inputs p)
       \<and> (\<forall>q. distinct (map fst (inputs p)) \<and> distinct (map fst (inputs q))
               \<and> set (inputs q) = set (inputs p) \<longrightarrow>
             manifest_inputs (buildManifest h q dirhash) = manifest_inputs (buildManifest h p dirhash))"
proof (intro conjI allI impI)
  show "writeManifest h p fsys
           = (None, fsys(destDir p @ ''/.abc/'' @ ''manifest_''
                           @ (if IsCanonical (dlMeta p) then url_escape h (CanonicalSource (dlMeta p))
                              else ''nolocation'')
                           @ ''_'' @ Format_RFC3339Nano (Time_UTC (clock p)) @ ''.lock.yaml''
                         \<mapsto> manifest_header @ yaml_Marshal h (buildManifest h p dirhash)))"
    unfolding writeManifest_writes [OF assms] manifest_name_def by simp
  show "sorted (map fst (manifest_inputs (buildManifest h p dirhash)))"
    by (simp add: buildManifest_def Let_def sorted_sort_key)
  show "set (manifest_inputs (buildManifest h p dirhash)) = set (inputs p)"
    by (simp add: buildManifest_def Let_def)
  show "length (manifest_inputs (buildManifest h p dirhash)) = length (inputs p)"
    by (simp add: buildManifest_def Let_def)
next
  fix q :: writeManifestParams
  assume "distinct (map fst (inputs p)) \<and> distinct (map fst (inputs q)) \<and> set (inputs q) = set (inputs p)"
  then have "sort_key fst (inputs q) = sort_key fst (inputs p)"
    by (intro sort_key_order_free) simp_all
  then show "manifest_inputs (buildManifest h q dirhash) = manifest_inputs (buildManifest h p dirhash)"
    by (simp add: buildManifest_def Let_def)
qed

text \<open>
  C6. With \<^verbatim>\<open>dryRun\<close> set, \<^verbatim>\<open>writeManifest\<close> leaves the file system as it was: no
  manifest is written and the destination directory keeps its contents.
\<close>

theorem C6_writeManifest_dry_run:
  assumes "dryRun p"
  shows "snd (writeManifest h p fsys) = fsys
       \<and> (\<forall>dirhash. hash_dir h (templateDir p) = Inr dirhash \<longrightarrow> writeManifest h p fsys = (None, fsys))"
  using assms by (simp add: writeManifest_def split: sum.splits)


subsection \<open>Timestamps\<close>

lemma length_pad [simp]: "length (pad w n) = w"
  by (induction w arbitrary: n) simp_all

lemma length_civil_seconds [simp]: "length (civil_seconds local) = 19"
  by (simp add: civil_seconds_def Let_def split: prod.splits)

lemma Format_UTC:
  "Format_RFC3339Nano (Time_UTC t) = civil_seconds (unix_sec t) @ fraction (nsec t) @ ''Z''"
  by (simp add: Format_RFC3339Nano_def Time_UTC_def zone_def)

lemma digit_inj:
  assumes "0 \<le> a" "a < 10" "0 \<le> b" "b < 10" "digit a = digit b"
  shows "a = b"
proof -
  have d: "distinct ''0123456789''" by simp
  have "nat a < length ''0123456789''" "nat b < length ''0123456789''"
    using assms by simp_all
  with d assms(5) have "nat a = nat b"
    unfolding digit_def by (simp only: nth_eq_iff_index_eq)
  with assms show ?thesis by simp
qed

lemma pad_inj:
  assumes "0 \<le> n" "n < 10 ^ w" "0 \<le> m" "m < 10 ^ w" "pad w n = pad w m"
  shows "n = m"
  using assms
proof (induction w arbitrary: n m)
  case 0
  then show ?case by simp
next
  case (Suc w)
  from Suc.prems(5) have eq: "pad w (n div 10) = pad w (m div 10)" "digit (n mod 10) = digit (m mod 10)"
    by simp_all
  have "n div 10 = m div 10"
  proof (rule Suc.IH [OF _ _ _ _ eq(1)])
    show "0 \<le> n div 10" "0 \<le> m div 10" using Suc.prems by simp_all
    show "n div 10 < 10 ^ w" "m div 10 < 10 ^ w" using Suc.prems by simp_all
  qed
  moreover have "n mod 10 = m mod 10"
    by (rule digit_inj [OF _ _ _ _ eq(2)]) simp_all
  ultimately show ?case
    by (metis mult_div_mod_eq)
qed

lemma strip_inj:
  assumes "length xs = length ys"
    and "dropWhile (\<lambda>c. c = z) xs = dropWhile (\<lambda>c. c = z) ys"
  shows "xs = ys"
proof -
  have tk: "takeWhile (\<lambda>c. c = z) us = replicate (length (takeWhile (\<lambda>c. c = z) us)) z" for us :: "'a list"
    by (induction us) simp_all
  have len: "length (takeWhile (\<lambda>c. c = z) us) + length (dropWhile (\<lambda>c. c = z) us) = length us" for us :: "'a list"
    by (metis length_append takeWhile_dropWhile_id)
  from len [of xs] len [of ys] assms
  have "length (takeWhile (\<lambda>c. c = z) xs) = length (takeWhile (\<lambda>c. c = z) ys)"
    by simp
  with tk [of xs] tk [of ys] have "takeWhile (\<lambda>c. c = z) xs = takeWhile (\<lambda>c. c = z) ys"
    by simp
  with assms(2) show ?thesis
    by (metis takeWhile_dropWhile_id)
qed

lemma dotted_inj:
  assumes "(if x = [] then [] else ''.'' @ x) = (if y = [] then [] else ''.'' @ y)"
  shows "x = y"
  using assms by (auto split: if_splits)

lemma fraction_inj:
  assumes "a < 10 ^ 9" "b < 10 ^ 9" "fraction a = fraction b"
  shows "a = b"
proof -
  define da where "da = pad 9 (int a)"
  define db where "db = pad 9 (int b)"
  have len: "length da = length db"
    unfolding da_def db_def by (simp only: length_pad)
  from assms(3) have "rev (dropWhile (\<lambda>c. c = CHR ''0'') (rev da)) = rev (dropWhile (\<lambda>c. c = CHR ''0'') (rev db))"
    unfolding fraction_def Let_def da_def [symmetric] db_def [symmetric] by (rule dotted_inj)
  then have dw: "dropWhile (\<lambda>c. c = CHR ''0'') (rev da) = dropWhile (\<lambda>c. c = CHR ''0'') (rev db)"
    by (simp only: rev_is_rev_conv)
  have "rev da = rev db"
  proof (rule strip_inj [where z = "CHR ''0''"])
    show "length (rev da) = length (rev db)"
      using len by (simp only: length_rev)
    show "dropWhile (\<lambda>c. c = CHR ''0'') (rev da) = dropWhile (\<lambda>c. c = CHR ''0'') (rev db)"
      by (rule dw)
  qed
  then have "da = db"
    by (simp only: rev_is_rev_conv)
  then have eq: "pad 9 (int a) = pad 9 (int b)"
    unfolding da_def db_def .
  have "int a = int b"
  proof (rule pad_inj [OF _ _ _ _ eq])
    show "0 \<le> int a" "0 \<le> int b"
      by simp_all
    show "int a < 10 ^ 9" "int b < 10 ^ 9"
      using assms(1,2) by (simp_all flip: of_nat_less_iff)
  qed
  then show ?thesis by simp
qed

text \<open>
  C5. Whatever the time zone of the time that the clock shows, the creation time and the
  modification time of the written manifest are that instant in UTC in the layout
  RFC3339Nano: date and time of day of the instant, the fraction of the second, and the
  zone \<^verbatim>\<open>Z\<close>. Two clock times of the same instant give the same text, and the text
  determines the nanoseconds.
\<close>

theorem C5_manifest_times_utc:
  assumes "\<not> dryRun p" and "hash_dir h (templateDir p) = Inr dirhash"
  shows "\<exists>m. writeManifest h p fsys
                = (None, fsys(destDir p @ ''/.abc/'' @ manifest_name h p
                                \<mapsto> manifest_header @ yaml_Marshal h m))
            \<and> creation_time m = Format_RFC3339Nano (Time_UTC (clock p))
            \<and> creation_time m = civil_seconds (unix_sec (clock p)) @ fraction (nsec (clock p)) @ ''Z''
            \<and> modification_time m = creation_time m
            \<and> (\<forall>t. unix_sec t = unix_sec (clock p) \<and> nsec t = nsec (clock p) \<longrightarrow>
                  creation_time (buildManifest h (p\<lparr>clock := t\<rparr>) dirhash) = creation_time m)
            \<and> (\<forall>t. nsec t < 10 ^ 9 \<and> nsec (clock p) < 10 ^ 9
                  \<and> creation_time (buildManifest h (p\<lparr>clock := t\<rparr>) dirhash) = creation_time m \<longrightarrow>
                  nsec t = nsec (clock p))"
proof (intro exI conjI allI impI)
  show "writeManifest h p fsys
                = (None, fsys(destDir p @ ''/.abc/'' @ manifest_name h p
                                \<mapsto> manifest_header @ yaml_Marshal h (buildManifest h p dirhash)))"
    by (rule writeManifest_writes [OF assms])
  show "creation_time (buildManifest h p dirhash) = Format_RFC3339Nano (Time_UTC (clock p))"
    by (simp add: buildManifest_def Let_def)
  show "creation_time (buildManifest h p dirhash)
          = civil_seconds (unix_sec (clock p)) @ fraction (nsec (clock p)) @ ''Z''"
    by (simp add: buildManifest_def Let_def Format_UTC)
  show "modification_time (buildManifest h p dirhash) = creation_time (buildManifest h p dirhash)"
    by (simp add: buildManifest_def Let_def)
next
  fix t :: Time
  assume "unix_sec t = unix_sec (clock p) \<and> nsec t = nsec (clock p)"
  then show "creation_time (buildManifest h (p\<lparr>clock := t\<rparr>) dirhash)
               = creation_time (buildManifest h p dirhash)"
    by (simp add: buildManifest_def Let_def Format_UTC)
next
  fix t :: Time
  assume a: "nsec t < 10 ^ 9 \<and> nsec (clock p) < 10 ^ 9
           \<and> creation_time (buildManifest h (p\<lparr>clock := t\<rparr>) dirhash)
               = creation_time (buildManifest h p dirhash)"
  then have "civil_seconds (unix_sec t) @ fraction (nsec t) @ ''Z''
           = civil_seconds (unix_sec (clock p)) @ fraction (nsec (clock p)) @ ''Z''"
    by (simp add: buildManifest_def Let_def Format_UTC)
  then have "fraction (nsec t) = fraction (nsec (clock p))"
    by simp
  with a show "nsec t = nsec (clock p)"
    by (simp add: fraction_inj)
qed


lemma test_times:
  "Format_RFC3339Nano mockClock = ''2023-12-08T15:59:02.000000013-08:00''"
  "Format_RFC3339Nano (Time_UTC mockClock) = ''2023-12-08T23:59:02.000000013Z''"
  by code_simp+

lemma test_names:
  "manifest_name test_host test_non_canonical
     = ''manifest_nolocation_2023-12-08T23:59:02.000000013Z.lock.yaml''"
  "manifest_name test_host test_canonical
     = ''manifest_github.com%2Ffoo%2Fbar_2023-12-08T23:59:02.000000013Z.lock.yaml''"
  by code_simp+

lemma test_inputs:
  "manifest_inputs (buildManifest test_host test_non_canonical dirhash)
     = [(''pineapple'', ''deal with it''), (''pizza'', ''hawaiian'')]"
  by (simp add: buildManifest_def Let_def test_non_canonical_def)


lemma test_params:
  "\<not> dryRun test_non_canonical" "\<not> dryRun test_canonical" "dryRun test_dryrun"
  "clock test_non_canonical = mockClock" "clock test_canonical = mockClock"
  "destDir test_non_canonical = ''/dest''" "destDir test_canonical = ''/dest''"
  "IsCanonical (dlMeta test_non_canonical) = False"
  "IsCanonical (dlMeta test_canonical) = True"
  "CanonicalSource (dlMeta test_canonical) = ''github.com/foo/bar''"
  by (simp_all add: test_non_canonical_def test_canonical_def test_dryrun_def)

lemma test_hash_dir:
  "hash_dir test_host dir = Inr ''h1:uh/nUYc3HpipWEon9kYOsvSrEadfu8Q9TdfBuHcnF3o=''"
  by (simp add: test_host_def)

lemma test_escape: "url_escape test_host ''github.com/foo/bar'' = ''github.com%2Ffoo%2Fbar''"
  by (simp add: test_host_def)

theorem C4_writeManifest_name_and_inputs_witness:
  "writeManifest test_host test_non_canonical test_dest
     = (None, test_dest(''/dest/.abc/manifest_nolocation_2023-12-08T23:59:02.000000013Z.lock.yaml''
          \<mapsto> manifest_header @ yaml_Marshal test_host
                (buildManifest test_host test_non_canonical ''h1:uh/nUYc3HpipWEon9kYOsvSrEadfu8Q9TdfBuHcnF3o='')))
   \<and> writeManifest test_host test_canonical test_dest
     = (None, test_dest(''/dest/.abc/manifest_github.com%2Ffoo%2Fbar_2023-12-08T23:59:02.000000013Z.lock.yaml''
          \<mapsto> manifest_header @ yaml_Marshal test_host
                (buildManifest test_host test_canonical ''h1:uh/nUYc3HpipWEon9kYOsvSrEadfu8Q9TdfBuHcnF3o='')))
   \<and> manifest_inputs (buildManifest test_host test_non_canonical ''h1:uh/nUYc3HpipWEon9kYOsvSrEadfu8Q9TdfBuHcnF3o='')
     = [(''pineapple'', ''deal with it''), (''pizza'', ''hawaiian'')]
   \<and> sorted (map fst (manifest_inputs
         (buildManifest test_host test_non_canonical ''h1:uh/nUYc3HpipWEon9kYOsvSrEadfu8Q9TdfBuHcnF3o='')))"
proof -
  note nc = C4_writeManifest_name_and_inputs [OF test_params(1) test_hash_dir, where fsys = test_dest]
  note c = C4_writeManifest_name_and_inputs [OF test_params(2) test_hash_dir, where fsys = test_dest]
  have 1: "writeManifest test_host test_non_canonical test_dest
     = (None, test_dest(''/dest/.abc/manifest_nolocation_2023-12-08T23:59:02.000000013Z.lock.yaml''
          \<mapsto> manifest_header @ yaml_Marshal test_host
                (buildManifest test_host test_non_canonical ''h1:uh/nUYc3HpipWEon9kYOsvSrEadfu8Q9TdfBuHcnF3o='')))"
    using nc [THEN conjunct1] by (simp add: test_params test_times)
  have 2: "writeManifest test_host test_canonical test_dest
     = (None, test_dest(''/dest/.abc/manifest_github.com%2Ffoo%2Fbar_2023-12-08T23:59:02.000000013Z.lock.yaml''
          \<mapsto> manifest_header @ yaml_Marshal test_host
                (buildManifest test_host test_canonical ''h1:uh/nUYc3HpipWEon9kYOsvSrEadfu8Q9TdfBuHcnF3o='')))"
    using c [THEN conjunct1] by (simp add: test_params test_times test_escape)
  note 3 = test_inputs [of "''h1:uh/nUYc3HpipWEon9kYOsvSrEadfu8Q9TdfBuHcnF3o=''"]
  note 4 = nc [THEN conjunct2, THEN conjunct1]
  from 1 2 3 4 show ?thesis
    by (intro conjI)
qed

theorem C5_manifest_times_utc_witness:
  "Format_RFC3339Nano (clock test_non_canonical) = ''2023-12-08T15:59:02.000000013-08:00''
   \<and> (\<exists>m. writeManifest test_host test_non_canonical test_dest
              = (None, test_dest(destDir test_non_canonical @ ''/.abc/'' @ manifest_name test_host test_non_canonical
                                  \<mapsto> manifest_header @ yaml_Marshal test_host m))
          \<and> creation_time m = ''2023-12-08T23:59:02.000000013Z''
          \<and> modification_time m = ''2023-12-08T23:59:02.000000013Z'')"
proof -
  from C5_manifest_times_utc [OF test_params(1) test_hash_dir, where fsys = test_dest]
  obtain m where
    w: "writeManifest test_host test_non_canonical test_dest
              = (None, test_dest(destDir test_non_canonical @ ''/.abc/'' @ manifest_name test_host test_non_canonical
                                  \<mapsto> manifest_header @ yaml_Marshal test_host m))" and
    c: "creation_time m = Format_RFC3339Nano (Time_UTC (clock test_non_canonical))" and
    mt: "modification_time m = creation_time m"
    apply (elim exE conjE)
    apply (rule that; assumption)
    done
  from c have c': "creation_time m = ''2023-12-08T23:59:02.000000013Z''"
    by (simp only: test_params test_times)
  with mt have m': "modification_time m = ''2023-12-08T23:59:02.000000013Z''"
    by (simp only:)
  have z: "Format_RFC3339Nano (clock test_non_canonical) = ''2023-12-08T15:59:02.000000013-08:00''"
    by (simp only: test_params test_times)
  from w c' m' have "\<exists>m. writeManifest test_host test_non_canonical test_dest
              = (None, test_dest(destDir test_non_canonical @ ''/.abc/'' @ manifest_name test_host test_non_canonical
                                  \<mapsto> manifest_header @ yaml_Marshal test_host m))
          \<and> creation_time m = ''2023-12-08T23:59:02.000000013Z''
          \<and> modification_time m = ''2023-12-08T23:59:02.000000013Z''"
    by (intro exI [of _ m] conjI)
  with z show ?thesis
    by (intro conjI)
qed

theorem C6_writeManifest_dry_run_witness:
  "dryRun test_dryrun \<and> writeManifest test_host test_dryrun test_dest = (None, test_dest)"
  using C6_writeManifest_dry_run [OF test_params(3), where h = test_host and fsys = test_dest, THEN conjunct2, rule_format,
      OF test_hash_dir] test_params(3)
  by (intro conjI)

end
